theory Spec2Isabelle
  imports Complex_Main "HOL-Library.Word" "HOL-Library.Monad_Syntax"
begin

section \<open>The Go runtime and library, as far as the mdadm collector uses them\<close>

text \<open>
  The collector of \<^verbatim>\<open>collector/mdadm.go\<close> reads \<^verbatim>\<open>/proc/mdstat\<close>, splits it into
  lines and parses, for every md device, the device line, the status line and the optional
  bitmap and recovery/resync lines. Go strings are byte sequences; \<^typ>\<open>string\<close> is a list
  of 8-bit characters, so \<open>length\<close> is Go's \<^verbatim>\<open>len\<close> and \<open>!\<close> is Go's byte index.
\<close>

subsection \<open>Panics\<close>

text \<open>
  A Go function that can panic at run time returns an \<open>option\<close>: \<open>None\<close> is the panic,
  \<open>Some v\<close> the normal return of \<open>v\<close>. Every slice or string index of the source goes
  through \<open>index\<close>, which panics out of range as Go does.
\<close>

definition index :: "'a list \<Rightarrow> nat \<Rightarrow> 'a option" where
  "index xs i = (if i < length xs then Some (xs ! i) else None)"

subsection \<open>Errors\<close>

text \<open>
  An error built by \<^verbatim>\<open>fmt.Errorf\<close> keeps its format string and its arguments (a string or
  a wrapped error, both printed with \<^verbatim>\<open>%s\<close>). \<open>NumError\<close> is \<^verbatim>\<open>*strconv.NumError\<close>
  (function, input, cause) and \<open>PathError\<close> is \<^verbatim>\<open>*os.PathError\<close> (operation, path,
  cause).
\<close>

datatype num_err = ErrRange | ErrSyntax

datatype errno = ENOENT | EACCES | EIO

datatype 'e arg = S string | E 'e

datatype error =
    Errorf string "error arg list"
  | NumError string string num_err
  | PathError string string errno

fun IsNotExist :: "error option \<Rightarrow> bool" where
  "IsNotExist (Some (PathError _ _ ENOENT)) = True"
| "IsNotExist _ = False"

subsection \<open>Package strings\<close>

definition HasPrefix :: "string \<Rightarrow> string \<Rightarrow> bool" where
  "HasPrefix s pre = (length s \<ge> length pre \<and> take (length pre) s = pre)"

fun Contains :: "string \<Rightarrow> string \<Rightarrow> bool" where
  "Contains [] substr = (substr = [])"
| "Contains (c # cs) substr = (HasPrefix (c # cs) substr \<or> Contains cs substr)"

text \<open>
  \<^verbatim>\<open>strings.Split(s, sep)\<close> for a non-empty separator: the pieces of \<open>s\<close> between the
  occurrences of \<open>sep\<close>, found from left to right without overlap; always at least one
  piece. \<open>cur\<close> is the piece being collected. (With an empty separator Go cuts \<open>s\<close> into
  UTF-8 sequences; the collector only passes \<^verbatim>\<open>"\n"\<close> and \<^verbatim>\<open>" "\<close>.)
\<close>

function Split_from :: "string \<Rightarrow> string \<Rightarrow> string \<Rightarrow> string list" where
  "Split_from cur [] sep = [cur]"
| "Split_from cur (c # cs) sep =
     (if sep \<noteq> [] \<and> HasPrefix (c # cs) sep
      then cur # Split_from [] (drop (length sep) (c # cs)) sep
      else Split_from (cur @ [c]) cs sep)"
  by pat_completeness auto
termination
  by (relation "measure (\<lambda>(cur, s, sep). length s)") auto

definition Split :: "string \<Rightarrow> string \<Rightarrow> string list" where
  "Split s sep = Split_from [] s sep"

fun Join :: "string list \<Rightarrow> string \<Rightarrow> string" where
  "Join [] sep = []"
| "Join [a] sep = a"
| "Join (a # b # rest) sep = a @ sep @ Join (b # rest) sep"

subsection \<open>Package regexp\<close>

text \<open>
  The two patterns of the collector use literals, the classes \<^verbatim>\<open>\d\<close>, \<^verbatim>\<open>.\<close> and
  \<^verbatim>\<open>[U_]\<close>, the greedy repetitions \<^verbatim>\<open>+\<close> and \<^verbatim>\<open>*\<close> of a class, capturing groups and
  concatenation. \<^verbatim>\<open>.\<close> matches any character but a newline; since every character that
  follows a \<^verbatim>\<open>.*\<close> in the patterns is ASCII, matching bytes and matching UTF-8
  sequences agree.
\<close>

datatype cclass = Digit | AnyCharNotNL | OneOf string

datatype regex =
    Lit string
  | Plus cclass
  | Star cclass
  | Group regex
  | Seq regex regex

definition is_digit :: "char \<Rightarrow> bool" where
  "is_digit c = (48 \<le> (of_char c :: nat) \<and> (of_char c :: nat) \<le> 57)"

fun cmatch :: "cclass \<Rightarrow> char \<Rightarrow> bool" where
  "cmatch Digit c = is_digit c"
| "cmatch AnyCharNotNL c = (c \<noteq> CHR 0x0A)"
| "cmatch (OneOf cs) c = (c \<in> set cs)"

text \<open>
  \<open>runs p s\<close>: what is left of \<open>s\<close> after a greedy repetition has taken some of its
  leading characters that satisfy \<open>p\<close>, the longest run first, the empty run last.
\<close>

fun runs :: "(char \<Rightarrow> bool) \<Rightarrow> string \<Rightarrow> string list" where
  "runs p [] = [[]]"
| "runs p (c # cs) = (if p c then runs p cs @ [c # cs] else [c # cs])"

text \<open>
  \<open>rmatch r s\<close>: all the ways \<open>r\<close> matches a prefix of \<open>s\<close>, in the order a backtracking
  matcher tries them (Go's leftmost-first semantics): each is the texts of the groups, in
  the order of their opening parentheses, and the rest of \<open>s\<close>.
\<close>

fun rmatch :: "regex \<Rightarrow> string \<Rightarrow> (string list \<times> string) list" where
  "rmatch (Lit t) s = (if HasPrefix s t then [([], drop (length t) s)] else [])"
| "rmatch (Plus c) s =
     (case s of [] \<Rightarrow> []
      | x # xs \<Rightarrow> if cmatch c x then map (\<lambda>rest. ([], rest)) (runs (cmatch c) xs) else [])"
| "rmatch (Star c) s = map (\<lambda>rest. ([], rest)) (runs (cmatch c) s)"
| "rmatch (Group r) s =
     map (\<lambda>(caps, rest). (take (length s - length rest) s # caps, rest)) (rmatch r s)"
| "rmatch (Seq r1 r2) s =
     concat (map (\<lambda>(caps1, s1). map (\<lambda>(caps2, s2). (caps1 @ caps2, s2)) (rmatch r2 s1))
                 (rmatch r1 s))"

text \<open>
  \<^verbatim>\<open>re.FindStringSubmatch(s)\<close>: the leftmost match of \<open>re\<close> in \<open>s\<close>, as the matched text
  followed by the texts of the groups; \<^verbatim>\<open>nil\<close> (the empty list) when nothing matches.
\<close>

fun FindStringSubmatch :: "regex \<Rightarrow> string \<Rightarrow> string list" where
  "FindStringSubmatch re [] =
     (case rmatch re [] of [] \<Rightarrow> [] | (caps, rest) # _ \<Rightarrow> [] # caps)"
| "FindStringSubmatch re (c # cs) =
     (case rmatch re (c # cs) of
        [] \<Rightarrow> FindStringSubmatch re cs
      | (caps, rest) # _ \<Rightarrow> take (length (c # cs) - length rest) (c # cs) # caps)"

subsection \<open>Package strconv\<close>

type_synonym int64 = "64 word"

text \<open>
  \<^verbatim>\<open>strconv.ParseUint(s, 10, 64)\<close>. The accumulator \<open>n\<close> is a \<^verbatim>\<open>uint64\<close>: its
  multiplication and addition wrap around, and the loop detects both. The loop stops at
  the first character that is not a decimal digit (a syntax error) and at the first
  overflow (a range error), whichever comes first.
\<close>

type_synonym uint64 = "64 word"

definition maxUint64 :: uint64 where
  "maxUint64 = - 1"

fun ParseUint_loop :: "string \<Rightarrow> uint64 \<Rightarrow> uint64 \<times> num_err option" where
  "ParseUint_loop [] n = (n, None)"
| "ParseUint_loop (d # s) n =
     (if \<not> is_digit d then (0, Some ErrSyntax)
      else let v = (of_nat ((of_char d :: nat) - 48) :: uint64);
               cutoff = maxUint64 div 10 + 1;
               maxVal = maxUint64 in
        if n \<ge> cutoff then (maxUint64, Some ErrRange)
        else let n' = n * 10; n1 = n' + v in
          if n1 < n' \<or> n1 > maxVal then (maxUint64, Some ErrRange)
          else ParseUint_loop s n1)"

definition ParseUint :: "string \<Rightarrow> uint64 \<times> error option" where
  "ParseUint s =
     (if length s < 1 then (0, Some (NumError ''ParseUint'' s ErrSyntax))
      else case ParseUint_loop s 0 of
             (n, None) \<Rightarrow> (n, None)
           | (n, Some e) \<Rightarrow> (n, Some (NumError ''ParseUint'' s e)))"

text \<open>
  \<^verbatim>\<open>strconv.ParseInt(s, 10, 64)\<close>, the only base and size the collector asks for: an
  optional sign, then \<open>ParseUint\<close>, then the range check against \<open>2 ^ 63\<close>. A syntax
  error of \<open>ParseUint\<close> is returned under the name and input of \<open>ParseInt\<close>; its range
  error falls through to the range check, which \<open>maxUint64\<close> fails. The conversion
  \<^verbatim>\<open>int64(un)\<close> keeps the 64 bits.
\<close>

definition ParseInt :: "string \<Rightarrow> int64 \<times> error option" where
  "ParseInt s =
     (if length s = 0 then (0, Some (NumError ''ParseInt'' s ErrSyntax))
      else
        let s0 = s;
            neg = (hd s = CHR ''-'');
            s1 = (if hd s = CHR ''+'' \<or> hd s = CHR ''-'' then tl s else s);
            (un, err) = ParseUint s1;
            cutoff = (push_bit 63 1 :: uint64)
        in case err of
             Some (NumError f num ErrSyntax) \<Rightarrow> (0, Some (NumError ''ParseInt'' s0 ErrSyntax))
           | _ \<Rightarrow>
               if \<not> neg \<and> un \<ge> cutoff
                 then (cutoff - 1, Some (NumError ''ParseInt'' s0 ErrRange))
               else if neg \<and> un > cutoff
                 then (- cutoff, Some (NumError ''ParseInt'' s0 ErrRange))
               else (if neg then - un else un, None))"

section \<open>The collector\<close>

definition statusfile :: string where
  "statusfile = ''/proc/mdstat''"

text \<open>The pattern \<^verbatim>\<open>(\d+) blocks .*\[(\d+)/(\d+)\] \[[U_]+\]\<close>.\<close>

definition statuslineRE :: regex where
  "statuslineRE =
     Seq (Group (Plus Digit)) (Seq (Lit '' blocks '') (Seq (Star AnyCharNotNL)
    (Seq (Lit ''['') (Seq (Group (Plus Digit)) (Seq (Lit ''/'') (Seq (Group (Plus Digit))
    (Seq (Lit ''] ['') (Seq (Plus (OneOf ''U_'')) (Lit '']'')))))))))"

text \<open>The pattern \<^verbatim>\<open>\((\d+)/\d+\)\<close>.\<close>

definition buildlineRE :: regex where
  "buildlineRE =
     Seq (Lit ''('') (Seq (Group (Plus Digit)) (Seq (Lit ''/'') (Seq (Plus Digit) (Lit '')''))))"

record mdStatus =
  mdName :: string
  isActive :: bool
  disksActive :: int64
  disksTotal :: int64
  blocksTotal :: int64
  blocksSynced :: int64

text \<open>
  \<open>evalStatusline\<close> returns \<^verbatim>\<open>(active, total, size, err)\<close>; \<open>matches ! 0\<close> is the whole
  matched text.
\<close>

definition evalStatusline :: "string \<Rightarrow> (int64 \<times> int64 \<times> int64 \<times> error option) option" where
  "evalStatusline statusline =
     (let matches = FindStringSubmatch statuslineRE statusline in
      if length matches < 3 + 1
        then Some (0, 0, 0, Some (Errorf ''too few matches found in statusline: %s'' [S statusline]))
      else if length matches > 3 + 1
        then Some (0, 0, 0, Some (Errorf ''too many matches found in statusline: %s'' [S statusline]))
      else do {
        m1 \<leftarrow> index matches 1;
        case ParseInt m1 of
          (_, Some err) \<Rightarrow> Some (0, 0, 0, Some (Errorf ''%s in statusline: %s'' [E err, S statusline]))
        | (size', None) \<Rightarrow> do {
            m2 \<leftarrow> index matches 2;
            case ParseInt m2 of
              (_, Some err) \<Rightarrow> Some (0, 0, 0, Some (Errorf ''%s in statusline: %s'' [E err, S statusline]))
            | (total', None) \<Rightarrow> do {
                m3 \<leftarrow> index matches 3;
                case ParseInt m3 of
                  (_, Some err) \<Rightarrow> Some (0, 0, 0, Some (Errorf ''%s in statusline: %s'' [E err, S statusline]))
                | (active, None) \<Rightarrow> Some (active, total', size', None)
              }
          }
      })"

text \<open>Gets the size that has already been synced out of the sync line.\<close>

definition evalBuildline :: "string \<Rightarrow> (int64 \<times> error option) option" where
  "evalBuildline buildline =
     (let matches = FindStringSubmatch buildlineRE buildline in
      if length matches < 1 + 1
        then Some (0, Some (Errorf ''too few matches found in buildline: %s'' [S buildline]))
      else if length matches > 1 + 1
        then Some (0, Some (Errorf ''too many matches found in buildline: %s'' [S buildline]))
      else do {
        m1 \<leftarrow> index matches 1;
        case ParseInt m1 of
          (_, Some err) \<Rightarrow> Some (0, Some (Errorf ''%s in buildline: %s'' [E err, S buildline]))
        | (syncedSize, None) \<Rightarrow> Some (syncedSize, None)
      })"

text \<open>
  One iteration of \<^verbatim>\<open>for i, l := range lines\<close> in \<open>parseMdstat\<close>: it either goes on to
  the next line with the devices found so far (\<^verbatim>\<open>continue\<close>, or the end of the body),
  or returns from \<open>parseMdstat\<close> with the devices found so far and an error.
\<close>

datatype loop_step = Continue "mdStatus list" | Return "mdStatus list" "error option"

definition parseMdstat_body :: "string list \<Rightarrow> nat \<Rightarrow> string \<Rightarrow> mdStatus list \<Rightarrow> loop_step option" where
  "parseMdstat_body lines i l mdStates =
     (if l = [] then Some (Continue mdStates)
      else do {
        l0 \<leftarrow> index l 0;
        if l0 = CHR '' '' then Some (Continue mdStates)
        else if HasPrefix l ''Personalities'' \<or> HasPrefix l ''unused'' then Some (Continue mdStates)
        else
          let mainLine = Split l '' '' in
          if length mainLine < 3
            then Some (Return mdStates (Some (Errorf ''error parsing mdline: %s'' [S l])))
          else do {
            currentMD \<leftarrow> index mainLine 0;
            mainLine2 \<leftarrow> index mainLine 2;
            let isActive = (mainLine2 = ''active'');
            if length lines \<le> i + 3
              then Some (Return mdStates (Some (Errorf
                     ''error parsing %s: entry for %s has fewer lines than expected''
                     [S statusfile, S currentMD])))
            else do {
              statusline \<leftarrow> index lines (i + 1);
              (active, total', size', err) \<leftarrow> evalStatusline statusline;
              case err of
                Some e \<Rightarrow> Some (Return mdStates (Some (Errorf ''error parsing %s: %s'' [S statusfile, E e])))
              | None \<Rightarrow> do {
                  l2 \<leftarrow> index lines (i + 2);
                  let j = (if Contains l2 ''bitmap'' then i + 3 else i + 2);
                  lj \<leftarrow> index lines j;
                  if Contains lj ''recovery'' \<or> Contains lj ''resync''
                  then do {
                    (syncedBlocks, err) \<leftarrow> evalBuildline lj;
                    case err of
                      Some e \<Rightarrow> Some (Return mdStates (Some (Errorf ''error parsing %s: %s'' [S statusfile, E e])))
                    | None \<Rightarrow> Some (Continue (mdStates @
                        [\<lparr>mdName = currentMD, isActive = isActive, disksActive = active,
                          disksTotal = total', blocksTotal = size', blocksSynced = syncedBlocks\<rparr>]))
                  }
                  else Some (Continue (mdStates @
                        [\<lparr>mdName = currentMD, isActive = isActive, disksActive = active,
                          disksTotal = total', blocksTotal = size', blocksSynced = size'\<rparr>]))
                }
            }
          }
      })"

function parseMdstat_loop :: "string list \<Rightarrow> nat \<Rightarrow> mdStatus list \<Rightarrow> (mdStatus list \<times> error option) option" where
  "parseMdstat_loop lines i mdStates =
     (if i < length lines
      then case parseMdstat_body lines i (lines ! i) mdStates of
             None \<Rightarrow> None
           | Some (Return states err) \<Rightarrow> Some (states, err)
           | Some (Continue states) \<Rightarrow> parseMdstat_loop lines (i + 1) states
      else Some (mdStates, None))"
  by pat_completeness auto
termination
  by (relation "measure (\<lambda>(lines, i, mdStates). length lines - i)") auto

declare parseMdstat_loop.simps [simp del]

text \<open>
  The operating system, as far as the collector sees it: \<^verbatim>\<open>os.Stat\<close> (only its error is
  used) and \<^verbatim>\<open>ioutil.ReadFile\<close>.
\<close>

record os =
  Stat :: "string \<Rightarrow> error option"
  ReadFile :: "string \<Rightarrow> string \<times> error option"

text \<open>Parses an mdstat file and returns the devices with the relevant infos.\<close>

definition parseMdstat :: "os \<Rightarrow> string \<Rightarrow> (mdStatus list \<times> error option) option" where
  "parseMdstat sys mdStatusFilePath =
     (case ReadFile sys mdStatusFilePath of
        (content, Some err) \<Rightarrow> Some ([], Some (Errorf ''error parsing %s: %s'' [S statusfile, E err]))
      | (content, None) \<Rightarrow>
          let mdStatusFile = content;
              lines = Split mdStatusFile [CHR 0x0A]
          in parseMdstat_loop lines 0 [])"

subsection \<open>The metrics\<close>

text \<open>
  The Prometheus client, as far as \<open>Update\<close> uses it: a descriptor has a fully qualified
  name, a help text and the names of its variable labels; a constant metric has a
  descriptor, a kind, a value and one value for each variable label.
  \<^verbatim>\<open>MustNewConstMetric\<close> panics when the number of label values is not the number of
  variable labels.
\<close>

record Desc =
  fqName :: string
  helpText :: string
  variableLabels :: "string list"

datatype ValueType = CounterValue | GaugeValue | UntypedValue

record Metric =
  desc :: Desc
  valType :: ValueType
  val :: real
  labelValues :: "string list"

definition BuildFQName :: "string \<Rightarrow> string \<Rightarrow> string \<Rightarrow> string" where
  "BuildFQName namespace subsystem name =
     (if name = [] then []
      else if namespace \<noteq> [] \<and> subsystem \<noteq> [] then Join [namespace, subsystem, name] ''_''
      else if namespace \<noteq> [] then Join [namespace, name] ''_''
      else if subsystem \<noteq> [] then Join [subsystem, name] ''_''
      else name)"

definition NewDesc :: "string \<Rightarrow> string \<Rightarrow> string list \<Rightarrow> Desc" where
  "NewDesc fq h labels = \<lparr>fqName = fq, helpText = h, variableLabels = labels\<rparr>"

definition MustNewConstMetric :: "Desc \<Rightarrow> ValueType \<Rightarrow> real \<Rightarrow> string list \<Rightarrow> Metric option" where
  "MustNewConstMetric d vt v lvs =
     (if length lvs \<noteq> length (variableLabels d) then None
      else Some \<lparr>desc = d, valType = vt, val = v, labelValues = lvs\<rparr>)"

text \<open>
  The five descriptors. \<open>Namespace\<close> is a constant of the package declared in another
  file; the descriptors take it as a parameter.
\<close>

definition isActiveDesc :: "string \<Rightarrow> Desc" where
  "isActiveDesc Namespace =
     NewDesc (BuildFQName Namespace ''md'' ''is_active'')
       ''Indicator whether the md-device is active or not.'' [''device'']"

definition disksActiveDesc :: "string \<Rightarrow> Desc" where
  "disksActiveDesc Namespace =
     NewDesc (BuildFQName Namespace ''md'' ''disks_active'')
       ''Number of active disks of device.'' [''device'']"

definition disksTotalDesc :: "string \<Rightarrow> Desc" where
  "disksTotalDesc Namespace =
     NewDesc (BuildFQName Namespace ''md'' ''disks'')
       ''Total number of disks of device.'' [''device'']"

definition blocksTotalDesc :: "string \<Rightarrow> Desc" where
  "blocksTotalDesc Namespace =
     NewDesc (BuildFQName Namespace ''md'' ''blocks'')
       ''Total number of blocks on device.'' [''device'']"

definition blocksSyncedDesc :: "string \<Rightarrow> Desc" where
  "blocksSyncedDesc Namespace =
     NewDesc (BuildFQName Namespace ''md'' ''blocks_synced'')
       ''Number of blocks synced on device.'' [''device'']"

text \<open>
  The loop of \<open>Update\<close> over the parsed devices. \<open>ch\<close> is what has been sent on the
  channel so far; \<open>float64\<close> is Go's conversion of an \<^verbatim>\<open>int64\<close> to a \<^verbatim>\<open>float64\<close>,
  taken as a parameter.
\<close>

fun Update_loop :: "string \<Rightarrow> (int64 \<Rightarrow> real) \<Rightarrow> mdStatus list \<Rightarrow> Metric list \<Rightarrow> Metric list option" where
  "Update_loop Namespace float64 [] ch = Some ch"
| "Update_loop Namespace float64 (mds # mdstate) ch = do {
     let isActiveFloat = (if isActive mds then 1 else 0);
     m1 \<leftarrow> MustNewConstMetric (isActiveDesc Namespace) GaugeValue isActiveFloat [mdName mds];
     m2 \<leftarrow> MustNewConstMetric (disksActiveDesc Namespace) GaugeValue
             (float64 (disksActive mds)) [mdName mds];
     m3 \<leftarrow> MustNewConstMetric (disksTotalDesc Namespace) GaugeValue
             (float64 (disksTotal mds)) [mdName mds];
     m4 \<leftarrow> MustNewConstMetric (blocksTotalDesc Namespace) GaugeValue
             (float64 (blocksTotal mds)) [mdName mds];
     m5 \<leftarrow> MustNewConstMetric (blocksSyncedDesc Namespace) GaugeValue
             (float64 (blocksSynced mds)) [mdName mds];
     Update_loop Namespace float64 mdstate (ch @ [m1, m2, m3, m4, m5])
   }"

text \<open>
  \<open>Update\<close> returns what has been sent on the channel after the pass, and the error.
\<close>

definition Update :: "string \<Rightarrow> (int64 \<Rightarrow> real) \<Rightarrow> os \<Rightarrow> Metric list \<Rightarrow> (Metric list \<times> error option) option" where
  "Update Namespace float64 sys ch =
     (let err = Stat sys statusfile in
      if IsNotExist err then Some (ch, None)
      else if err \<noteq> None then Some (ch, err)
      else do {
        (mdstate, err) \<leftarrow> parseMdstat sys statusfile;
        case err of
          Some e \<Rightarrow> Some (ch, Some (Errorf ''error parsing %s: %s'' [S statusfile, E e]))
        | None \<Rightarrow> do {
            ch' \<leftarrow> Update_loop Namespace float64 mdstate ch;
            Some (ch', None)
          }
      })"

section \<open>Notions used in the statements\<close>

text \<open>
  A line is treated as a device header when the loop does not skip it: it is not empty,
  does not begin with a space and has neither of the two preamble prefixes.
\<close>

definition is_header :: "string \<Rightarrow> bool" where
  "is_header l =
     (l \<noteq> [] \<and> l ! 0 \<noteq> CHR '' '' \<and> \<not> HasPrefix l ''Personalities'' \<and> \<not> HasPrefix l ''unused'')"

text \<open>The number of capturing groups of a pattern.\<close>

fun ngroups :: "regex \<Rightarrow> nat" where
  "ngroups (Lit t) = 0"
| "ngroups (Plus c) = 0"
| "ngroups (Star c) = 0"
| "ngroups (Group r) = Suc (ngroups r)"
| "ngroups (Seq r1 r2) = ngroups r1 + ngroups r2"

text \<open>A pattern all of whose groups are \<^verbatim>\<open>(\d+)\<close>.\<close>

fun digit_groups :: "regex \<Rightarrow> bool" where
  "digit_groups (Group r) = (r = Plus Digit)"
| "digit_groups (Seq r1 r2) = (digit_groups r1 \<and> digit_groups r2)"
| "digit_groups _ = True"

text \<open>A non-empty string of decimal digits, and the number it writes.\<close>

definition digits :: "string \<Rightarrow> bool" where
  "digits m = (m \<noteq> [] \<and> list_all is_digit m)"

definition dec_from :: "nat \<Rightarrow> string \<Rightarrow> nat" where
  "dec_from n s = foldl (\<lambda>n d. 10 * n + ((of_char d :: nat) - 48)) n s"

definition dec :: "string \<Rightarrow> nat" where
  "dec s = dec_from 0 s"

text \<open>
  An operating system in which \<^verbatim>\<open>/proc/mdstat\<close> holds \<open>content\<close> and no other file
  exists, and one with no file at all.
\<close>

definition mdstat_os :: "string \<Rightarrow> os" where
  "mdstat_os content =
     \<lparr>Stat = (\<lambda>p. if p = statusfile then None else Some (PathError ''stat'' p ENOENT)),
      ReadFile = (\<lambda>p. if p = statusfile then (content, None)
                       else ([], Some (PathError ''open'' p ENOENT)))\<rparr>"

definition absent_os :: os where
  "absent_os =
     \<lparr>Stat = (\<lambda>p. Some (PathError ''stat'' p ENOENT)),
      ReadFile = (\<lambda>p. ([], Some (PathError ''open'' p ENOENT)))\<rparr>"

text \<open>The status report of the worked example.\<close>

definition example_mdstat :: string where
  "example_mdstat = Join
     [''Personalities : [raid1]'',
      ''md0 : active raid1 sda1[0] sdb1[1]'',
      ''      1953511936 blocks [2/2] [UU]'',
      [],
      ''unused devices: <none>''] [CHR 0x0A]"

text \<open>A device that is being recovered, with a bitmap line.\<close>

definition recovery_lines :: "string list" where
  "recovery_lines =
     [''md0 : active raid1 sda1[0] sdb1[1]'',
      ''      1953511936 blocks [2/1] [U_]'',
      ''      bitmap: 0/15 pages [0KB], 65536KB chunk'',
      ''      [==>..]  recovery = 45.0% (878780416/1953511936) finish=1.0min'',
      [],
      ''unused devices: <none>'',
      []]"

text \<open>
  A status line with two bracketed ratios and a recovery line with two parenthesized
  ratios.
\<close>

definition extra_groups_mdstat :: string where
  "extra_groups_mdstat = Join
     [''md0 : active raid1 sda1[0] sdb1[1]'',
      ''      100 blocks [9/9] [2/1] [U_]'',
      ''      [==>..]  recovery = 40.0% (40/100) (7/8) finish=1.0min'',
      [],
      ''unused devices: <none>'',
      []] [CHR 0x0A]"

text \<open>
  A report whose first status line is not indented, and one whose status line is
  indented with a tab.
\<close>

definition unindented_mdstat :: string where
  "unindented_mdstat = Join
     [''md0 : active raid1 sda1[0] sdb1[1]'',
      ''100 blocks [2/2] [UU]'',
      ''      200 blocks [3/3] [UUU]'',
      [],
      ''unused devices: <none>'',
      []] [CHR 0x0A]"

definition tab_mdstat :: string where
  "tab_mdstat = Join
     [''md0 : active raid1 sda1[0] sdb1[1]'',
      CHR 0x09 # ''100 blocks [2/2] [UU]'',
      [],
      []] [CHR 0x0A]"

text \<open>A device line with too few lines after it, and one with two tokens only.\<close>

definition truncated_lines :: "string list" where
  "truncated_lines =
     [''md0 : active raid1 sda1[0] sdb1[1]'',
      ''      100 blocks [2/2] [UU]'',
      []]"

definition short_header_lines :: "string list" where
  "short_header_lines = [''md0 :'', ''      100 blocks [2/2] [UU]'', [], []]"

text \<open>A status line whose block count is \<open>2 ^ 63\<close>.\<close>

definition overflow_lines :: "string list" where
  "overflow_lines =
     [''md0 : active raid1 sda1[0] sdb1[1]'',
      ''      9223372036854775808 blocks [2/2] [UU]'',
      [],
      []]"

text \<open>A recovery line whose count of synced blocks is \<open>2 ^ 63\<close>.\<close>

definition overflow_build_lines :: "string list" where
  "overflow_build_lines =
     [''md0 : active raid1 sda1[0] sdb1[1]'',
      ''      100 blocks [2/1] [U_]'',
      ''      [>....]  recovery =  0.0% (9223372036854775808/100) finish=1.0min'',
      [],
      []]"

section \<open>The patterns and their captures\<close>

lemma rmatch_ngroups: "(caps, rest) \<in> set (rmatch r s) \<Longrightarrow> length caps = ngroups r"
  by (induction r arbitrary: s caps rest) (fastforce split: if_splits list.splits)+

lemma runs_split: "r \<in> set (runs p s) \<Longrightarrow> \<exists>pre. s = pre @ r \<and> list_all p pre"
proof (induction s arbitrary: r)
  case Nil
  then show ?case by simp
next
  case (Cons c cs)
  show ?case
  proof (cases "r = c # cs")
    case True
    then show ?thesis by simp
  next
    case False
    with Cons.prems have pc: "p c" and "r \<in> set (runs p cs)"
      by (auto split: if_splits)
    then obtain pre where "cs = pre @ r" "list_all p pre"
      using Cons.IH by blast
    with pc have "c # cs = (c # pre) @ r \<and> list_all p (c # pre)" by simp
    then show ?thesis by blast
  qed
qed

lemma rmatch_suffix: "(caps, rest) \<in> set (rmatch r s) \<Longrightarrow> \<exists>pre. s = pre @ rest"
proof (induction r arbitrary: s caps rest)
  case (Lit t)
  then show ?case
    by (auto simp: HasPrefix_def split: if_splits) (metis append_take_drop_id)
next
  case (Plus c)
  then show ?case
    by (auto split: list.splits if_splits dest!: runs_split)
next
  case (Star c)
  then show ?case by (auto dest!: runs_split)
next
  case (Group r)
  then show ?case by auto
next
  case (Seq r1 r2)
  from Seq.prems obtain c1 s1 c2 where
    a: "(c1, s1) \<in> set (rmatch r1 s)" and b: "(c2, rest) \<in> set (rmatch r2 s1)"
    by auto
  from Seq.IH(1)[OF a] Seq.IH(2)[OF b] show ?case by (metis append.assoc)
qed

lemma Plus_Digit_capture:
  assumes "(caps, rest) \<in> set (rmatch (Plus Digit) s)"
  shows "digits (take (length s - length rest) s)"
proof -
  from assms obtain x xs where s: "s = x # xs" and x: "is_digit x"
    and r: "rest \<in> set (runs is_digit xs)"
    by (auto split: list.splits if_splits)
  from runs_split[OF r] obtain pre where pre: "xs = pre @ rest" "list_all is_digit pre"
    by blast
  have "take (length s - length rest) s = x # pre"
    using s pre by simp
  with x pre show ?thesis by (simp add: digits_def)
qed

lemma rmatch_digit_groups:
  "digit_groups r \<Longrightarrow> (caps, rest) \<in> set (rmatch r s) \<Longrightarrow> list_all digits caps"
proof (induction r arbitrary: s caps rest)
  case (Group r)
  then have r: "r = Plus Digit" by simp
  from Group.prems(2) obtain c where c: "(c, rest) \<in> set (rmatch (Plus Digit) s)"
    and caps: "caps = take (length s - length rest) s # c"
    unfolding r by auto
  from c have "c = []" by (auto split: list.splits if_splits)
  with Plus_Digit_capture[OF c] caps show ?case by simp
next
  case (Seq r1 r2)
  from Seq.prems obtain c1 s1 c2 where
    a: "(c1, s1) \<in> set (rmatch r1 s)" and b: "(c2, rest) \<in> set (rmatch r2 s1)"
    and caps: "caps = c1 @ c2"
    by auto
  from Seq.IH(1)[OF _ a] Seq.IH(2)[OF _ b] Seq.prems(1) caps show ?case by simp
qed (auto split: list.splits if_splits)

lemma FindStringSubmatch_cases:
  "FindStringSubmatch re s = [] \<or>
   (\<exists>t caps rest. (caps, rest) \<in> set (rmatch re t) \<and>
      FindStringSubmatch re s = take (length t - length rest) t # caps)"
proof (induction s)
  case Nil
  show ?case
  proof (cases "rmatch re []")
    case Nil
    then show ?thesis by simp
  next
    case (Cons a as)
    obtain caps rest where a: "a = (caps, rest)" by (cases a)
    have "(caps, rest) \<in> set (rmatch re [])" using Cons a by simp
    moreover have "FindStringSubmatch re [] = take (length ([] :: string) - length rest) [] # caps"
      using Cons a by simp
    ultimately show ?thesis by blast
  qed
next
  case (Cons c cs)
  show ?case
  proof (cases "rmatch re (c # cs)")
    case Nil
    with Cons show ?thesis by simp
  next
    case (Cons a as)
    obtain caps rest where a: "a = (caps, rest)" by (cases a)
    have "(caps, rest) \<in> set (rmatch re (c # cs))" using Cons a by simp
    moreover have "FindStringSubmatch re (c # cs) = take (length (c # cs) - length rest) (c # cs) # caps"
      using Cons a by simp
    ultimately show ?thesis by blast
  qed
qed

lemma FindStringSubmatch_length:
  "FindStringSubmatch re s = [] \<or> length (FindStringSubmatch re s) = Suc (ngroups re)"
  using FindStringSubmatch_cases[of re s] by (auto dest: rmatch_ngroups)

lemma FindStringSubmatch_digits:
  "digit_groups re \<Longrightarrow> list_all digits (tl (FindStringSubmatch re s))"
  using FindStringSubmatch_cases[of re s] by (auto dest: rmatch_digit_groups)

lemma dec_from_ge: "n \<le> dec_from n s"
proof (induction s arbitrary: n)
  case Nil
  show ?case by (simp add: dec_from_def)
next
  case (Cons d s)
  have "n \<le> 10 * n + ((of_char d :: nat) - 48)" by simp
  also have "\<dots> \<le> dec_from (10 * n + ((of_char d :: nat) - 48)) s" by (rule Cons.IH)
  finally show ?case by (simp add: dec_from_def)
qed

lemma cutoff_eq: "maxUint64 div 10 + 1 = (1844674407370955162 :: 64 word)"
  by (simp add: maxUint64_def)

lemma ParseUint_loop_digits:
  "list_all is_digit s \<Longrightarrow>
   ParseUint_loop s n =
     (if dec_from (unat n) s < 2 ^ 64 then (of_nat (dec_from (unat n) s), None)
      else (maxUint64, Some ErrRange))"
proof (induction s arbitrary: n)
  case Nil
  have "unat n < 2 ^ 64" using unsigned_less[of n] by simp
  then show ?case by (simp add: dec_from_def)
next
  case (Cons d s)
  define v where "v = (of_char d :: nat) - 48"
  have d: "is_digit d" and s: "list_all is_digit s" using Cons.prems by simp_all
  have v9: "v \<le> 9" using d unfolding v_def is_digit_def by linarith
  have step: "dec_from (unat n) (d # s) = dec_from (10 * unat n + v) s"
    by (simp add: dec_from_def v_def)
  have nlt: "unat n < 2 ^ 64" using unsigned_less[of n] by simp
  show ?case
  proof (cases "n \<ge> maxUint64 div 10 + 1")
    case True
    then have "1844674407370955162 \<le> unat n"
      by (simp add: cutoff_eq word_le_nat_alt)
    then have "2 ^ 64 \<le> 10 * unat n + v" by simp
    then have "2 ^ 64 \<le> dec_from (unat n) (d # s)"
      using dec_from_ge[of "10 * unat n + v" s] step by linarith
    with True d show ?thesis by simp
  next
    case False
    then have small: "unat n < 1844674407370955162"
      by (simp add: cutoff_eq word_le_nat_alt)
    have u10: "unat (n * 10) = 10 * unat n"
      using small by (simp add: unat_word_ariths)
    have uv: "unat (of_nat v :: 64 word) = v"
      using v9 by (simp add: unat_of_nat)
    have u1: "unat (n * 10 + of_nat v) = (10 * unat n + v) mod 2 ^ 64"
      using u10 uv by (simp add: unat_word_ariths)
    have notmax: "\<not> (n * 10 + of_nat v > maxUint64)"
      by (simp add: maxUint64_def)
    show ?thesis
    proof (cases "10 * unat n + v < 2 ^ 64")
      case True
      then have u1': "unat (n * 10 + of_nat v) = 10 * unat n + v"
        using u1 by simp
      then have nowrap: "\<not> (n * 10 + of_nat v < n * 10)"
        by (simp add: word_less_nat_alt u10)
      show ?thesis
        using False d nowrap notmax Cons.IH[OF s, of "n * 10 + of_nat v"] u1' step
        by (simp add: Let_def v_def)
    next
      case ge: False
      then have "(10 * unat n + v) mod 2 ^ 64 = 10 * unat n + v - 2 ^ 64"
        using small v9 by (simp add: mod_if)
      then have wrap: "n * 10 + of_nat v < n * 10"
        using u1 u10 ge v9 by (simp add: word_less_nat_alt)
      have "2 ^ 64 \<le> dec_from (unat n) (d # s)"
        using dec_from_ge[of "10 * unat n + v" s] step ge by linarith
      with False d wrap show ?thesis by (simp add: Let_def v_def)
    qed
  qed
qed

lemma ngroups_statuslineRE: "ngroups statuslineRE = 3"
  by (simp add: statuslineRE_def)

lemma ngroups_buildlineRE: "ngroups buildlineRE = 1"
  by (simp add: buildlineRE_def)

lemma digit_groups_statuslineRE: "digit_groups statuslineRE"
  by (simp add: statuslineRE_def)

lemma digit_groups_buildlineRE: "digit_groups buildlineRE"
  by (simp add: buildlineRE_def)

lemma statusline_matches:
  "FindStringSubmatch statuslineRE s = [] \<or>
   (\<exists>m0 m1 m2 m3. FindStringSubmatch statuslineRE s = [m0, m1, m2, m3] \<and>
      digits m1 \<and> digits m2 \<and> digits m3)"
proof (cases "FindStringSubmatch statuslineRE s = []")
  case True
  then show ?thesis by simp
next
  case False
  then have len: "length (FindStringSubmatch statuslineRE s) = 4"
    using FindStringSubmatch_length[of statuslineRE s] by (simp add: ngroups_statuslineRE)
  then obtain m0 m1 m2 m3 where m: "FindStringSubmatch statuslineRE s = [m0, m1, m2, m3]"
    by (auto simp: length_Suc_conv numeral_eq_Suc)
  from FindStringSubmatch_digits[OF digit_groups_statuslineRE, of s] m
  have "digits m1 \<and> digits m2 \<and> digits m3" by simp
  with m show ?thesis by blast
qed

lemma buildline_matches:
  "FindStringSubmatch buildlineRE s = [] \<or>
   (\<exists>m0 m1. FindStringSubmatch buildlineRE s = [m0, m1] \<and> digits m1)"
proof (cases "FindStringSubmatch buildlineRE s = []")
  case True
  then show ?thesis by simp
next
  case False
  then have len: "length (FindStringSubmatch buildlineRE s) = 2"
    using FindStringSubmatch_length[of buildlineRE s] by (simp add: ngroups_buildlineRE)
  then obtain m0 m1 where m: "FindStringSubmatch buildlineRE s = [m0, m1]"
    by (auto simp: length_Suc_conv numeral_eq_Suc)
  from FindStringSubmatch_digits[OF digit_groups_buildlineRE, of s] m
  have "digits m1" by simp
  with m show ?thesis by blast
qed

lemma digits_hd: "digits s \<Longrightarrow> hd s \<noteq> CHR ''+'' \<and> hd s \<noteq> CHR ''-''"
  by (cases s) (auto simp: digits_def is_digit_def)

lemma ParseUint_digits:
  assumes "digits s"
  shows "ParseUint s =
     (if dec s < 2 ^ 64 then (of_nat (dec s), None)
      else (maxUint64, Some (NumError ''ParseUint'' s ErrRange)))"
proof -
  from assms have ne: "s \<noteq> []" and d: "list_all is_digit s" by (simp_all add: digits_def)
  from ne have "\<not> length s < 1" by (cases s) simp_all
  then show ?thesis
    using ParseUint_loop_digits[OF d, of 0] by (simp add: ParseUint_def dec_def)
qed

lemma cutoff63: "(push_bit 63 1 :: 64 word) = 9223372036854775808"
  by simp

lemma ParseInt_digits:
  assumes "digits s"
  shows "ParseInt s =
     (if dec s < 2 ^ 63 then (of_nat (dec s), None)
      else (9223372036854775807, Some (NumError ''ParseInt'' s ErrRange)))"
proof -
  from assms have ne: "s \<noteq> []" by (simp add: digits_def)
  note hd = digits_hd[OF assms]
  show ?thesis
  proof (cases "dec s < 2 ^ 64")
    case True
    then have u: "unat (of_nat (dec s) :: 64 word) = dec s"
      by (simp add: unat_of_nat)
    have cmp: "(9223372036854775808 \<le> (of_nat (dec s) :: 64 word)) = (2 ^ 63 \<le> dec s)"
      by (simp add: word_le_nat_alt u)
    show ?thesis
      using ne hd True cmp
      by (simp add: ParseInt_def ParseUint_digits[OF assms] Let_def cutoff63 del: push_bit_eq_mult)
  next
    case False
    then have big: "\<not> dec s < 2 ^ 63" by simp
    have "(9223372036854775808 :: 64 word) \<le> maxUint64"
      by (simp add: maxUint64_def)
    then show ?thesis
      using ne hd False big
      by (simp add: ParseInt_def ParseUint_digits[OF assms] Let_def cutoff63)
  qed
qed

lemma sint_of_nat_small: "n < 2 ^ 63 \<Longrightarrow> sint (of_nat n :: 64 word) = int n"
  by (simp add: signed_of_nat signed_take_bit_int_eq_self)

section \<open>The collector: auxiliary facts\<close>

lemma evalStatusline_nomatch:
  "FindStringSubmatch statuslineRE s = [] \<Longrightarrow>
   evalStatusline s = Some (0, 0, 0, Some (Errorf ''too few matches found in statusline: %s'' [S s]))"
  by (simp add: evalStatusline_def)

lemma evalStatusline_match:
  assumes "FindStringSubmatch statuslineRE s = [m0, m1, m2, m3]"
  shows "evalStatusline s =
    (case ParseInt m1 of
       (_, Some err) \<Rightarrow> Some (0, 0, 0, Some (Errorf ''%s in statusline: %s'' [E err, S s]))
     | (size', None) \<Rightarrow>
        (case ParseInt m2 of
           (_, Some err) \<Rightarrow> Some (0, 0, 0, Some (Errorf ''%s in statusline: %s'' [E err, S s]))
         | (total', None) \<Rightarrow>
            (case ParseInt m3 of
               (_, Some err) \<Rightarrow> Some (0, 0, 0, Some (Errorf ''%s in statusline: %s'' [E err, S s]))
             | (active, None) \<Rightarrow> Some (active, total', size', None))))"
  using assms by (simp add: evalStatusline_def index_def Let_def)

lemma evalBuildline_nomatch:
  "FindStringSubmatch buildlineRE s = [] \<Longrightarrow>
   evalBuildline s = Some (0, Some (Errorf ''too few matches found in buildline: %s'' [S s]))"
  by (simp add: evalBuildline_def)

lemma evalBuildline_match:
  assumes "FindStringSubmatch buildlineRE s = [m0, m1]"
  shows "evalBuildline s =
    (case ParseInt m1 of
       (_, Some err) \<Rightarrow> Some (0, Some (Errorf ''%s in buildline: %s'' [E err, S s]))
     | (syncedSize, None) \<Rightarrow> Some (syncedSize, None))"
  using assms by (simp add: evalBuildline_def index_def Let_def)

lemma evalStatusline_total: "\<exists>r. evalStatusline s = Some r"
  using statusline_matches[of s]
  by (auto simp: evalStatusline_nomatch evalStatusline_match split: prod.splits option.splits)

lemma evalBuildline_total: "\<exists>r. evalBuildline s = Some r"
  using buildline_matches[of s]
  by (auto simp: evalBuildline_nomatch evalBuildline_match split: prod.splits option.splits)

lemma body_skip: "\<not> is_header l \<Longrightarrow> parseMdstat_body lines i l acc = Some (Continue acc)"
  by (auto simp: parseMdstat_body_def is_header_def index_def)

lemma body_total: "\<exists>st. parseMdstat_body lines i l acc = Some st"
proof -
  obtain a t z e where es: "evalStatusline (lines ! (i + 1)) = Some (a, t, z, e)"
    using evalStatusline_total[of "lines ! (i + 1)"] by (metis prod_cases4)
  obtain b1 e1 where eb1: "evalBuildline (lines ! (i + 2)) = Some (b1, e1)"
    using evalBuildline_total[of "lines ! (i + 2)"] by (metis prod.exhaust)
  obtain b2 e2 where eb2: "evalBuildline (lines ! (i + 3)) = Some (b2, e2)"
    using evalBuildline_total[of "lines ! (i + 3)"] by (metis prod.exhaust)
  show ?thesis
    using es eb1 eb2
    by (simp add: parseMdstat_body_def index_def Let_def split: option.splits)
qed

lemma body_Continue_header:
  assumes "is_header l" and "parseMdstat_body lines i l acc = Some (Continue states)"
  shows "\<exists>active total' size' synced.
     3 \<le> length (Split l '' '') \<and> i + 3 < length lines \<and>
     evalStatusline (lines ! (i + 1)) = Some (active, total', size', None) \<and>
     (if Contains (lines ! (if Contains (lines ! (i + 2)) ''bitmap'' then i + 3 else i + 2)) ''recovery'' \<or>
         Contains (lines ! (if Contains (lines ! (i + 2)) ''bitmap'' then i + 3 else i + 2)) ''resync''
      then evalBuildline (lines ! (if Contains (lines ! (i + 2)) ''bitmap'' then i + 3 else i + 2))
             = Some (synced, None)
      else synced = size') \<and>
     states = acc @ [\<lparr>mdName = Split l '' '' ! 0, isActive = (Split l '' '' ! 2 = ''active''),
                      disksActive = active, disksTotal = total', blocksTotal = size',
                      blocksSynced = synced\<rparr>]"
proof -
  obtain a t z e where es: "evalStatusline (lines ! (i + 1)) = Some (a, t, z, e)"
    using evalStatusline_total[of "lines ! (i + 1)"] by (metis prod_cases4)
  obtain b1 e1 where eb1: "evalBuildline (lines ! (i + 2)) = Some (b1, e1)"
    using evalBuildline_total[of "lines ! (i + 2)"] by (metis prod.exhaust)
  obtain b2 e2 where eb2: "evalBuildline (lines ! (i + 3)) = Some (b2, e2)"
    using evalBuildline_total[of "lines ! (i + 3)"] by (metis prod.exhaust)
  show ?thesis
    using assms es eb1 eb2
    by (auto simp: parseMdstat_body_def is_header_def index_def Let_def
             split: option.splits if_splits)
qed

lemma loop_total: "\<exists>r. parseMdstat_loop lines i acc = Some r"
proof (induction lines i acc rule: parseMdstat_loop.induct)
  case (1 lines i mdStates)
  show ?case
  proof (cases "i < length lines")
    case False
    then show ?thesis by (simp add: parseMdstat_loop.simps)
  next
    case True
    obtain st where st: "parseMdstat_body lines i (lines ! i) mdStates = Some st"
      using body_total by blast
    show ?thesis
    proof (cases st)
      case (Continue states)
      with 1[OF True st] True st show ?thesis
        by (subst parseMdstat_loop.simps) simp
    next
      case (Return states err)
      with True st show ?thesis
        by (subst parseMdstat_loop.simps) simp
    qed
  qed
qed

lemma body_Return:
  assumes "parseMdstat_body lines i l acc = Some (Return states err)"
  shows "states = acc \<and> err \<noteq> None"
proof -
  obtain a t z e where es: "evalStatusline (lines ! (i + 1)) = Some (a, t, z, e)"
    using evalStatusline_total[of "lines ! (i + 1)"] by (metis prod_cases4)
  obtain b1 e1 where eb1: "evalBuildline (lines ! (i + 2)) = Some (b1, e1)"
    using evalBuildline_total[of "lines ! (i + 2)"] by (metis prod.exhaust)
  obtain b2 e2 where eb2: "evalBuildline (lines ! (i + 3)) = Some (b2, e2)"
    using evalBuildline_total[of "lines ! (i + 3)"] by (metis prod.exhaust)
  show ?thesis
    using assms es eb1 eb2
    by (auto simp: parseMdstat_body_def index_def Let_def
             split: option.splits if_splits)
qed

lemma loop_step:
  "i < length lines \<Longrightarrow>
   parseMdstat_loop lines i acc =
     (case parseMdstat_body lines i (lines ! i) acc of
        None \<Rightarrow> None
      | Some (Return states err) \<Rightarrow> Some (states, err)
      | Some (Continue states) \<Rightarrow> parseMdstat_loop lines (i + 1) states)"
  by (subst parseMdstat_loop.simps) simp

lemma loop_end: "\<not> i < length lines \<Longrightarrow> parseMdstat_loop lines i acc = Some (acc, None)"
  by (subst parseMdstat_loop.simps) simp

lemma loop_names:
  "parseMdstat_loop lines i acc = Some (states, None) \<Longrightarrow>
   map mdName states =
     map mdName acc @ map (\<lambda>l. Split l '' '' ! 0) (filter is_header (drop i lines))"
proof (induction lines i acc rule: parseMdstat_loop.induct)
  case (1 lines i mdStates)
  show ?case
  proof (cases "i < length lines")
    case False
    with "1.prems" show ?thesis by (simp add: loop_end)
  next
    case True
    then have dr: "drop i lines = lines ! i # drop (i + 1) lines"
      by (simp add: Cons_nth_drop_Suc)
    obtain st where st: "parseMdstat_body lines i (lines ! i) mdStates = Some st"
      using body_total by blast
    show ?thesis
    proof (cases st)
      case (Return states' err)
      with body_Return[of lines i "lines ! i" mdStates states' err] st
      have "err \<noteq> None" by simp
      with "1.prems" True st Return show ?thesis by (simp add: loop_step)
    next
      case (Continue states')
      have rec: "parseMdstat_loop lines (i + 1) states' = Some (states, None)"
        using "1.prems" True st Continue by (simp add: loop_step)
      have IH: "map mdName states =
          map mdName states' @ map (\<lambda>l. Split l '' '' ! 0) (filter is_header (drop (i + 1) lines))"
        using "1.IH"[OF True st Continue rec] .
      show ?thesis
      proof (cases "is_header (lines ! i)")
        case False
        with body_skip[OF False, of lines i mdStates] st Continue have "states' = mdStates"
          by simp
        with IH dr False show ?thesis by simp
      next
        case hdr: True
        from body_Continue_header[OF hdr, of lines i mdStates states'] st Continue
        obtain r where "states' = mdStates @ [r]" "mdName r = Split (lines ! i) '' '' ! 0"
          by auto
        with IH dr hdr show ?thesis by simp
      qed
    qed
  qed
qed

lemma parseMdstat_names:
  assumes "parseMdstat sys path = Some (states, None)"
  shows "map mdName states =
     map (\<lambda>l. Split l '' '' ! 0) (filter is_header (Split (fst (ReadFile sys path)) [CHR 0x0A]))"
proof -
  obtain content err where rf: "ReadFile sys path = (content, err)" by (cases "ReadFile sys path")
  with assms have "err = None" by (auto simp: parseMdstat_def split: option.splits)
  with assms rf have "parseMdstat_loop (Split content [CHR 0x0A]) 0 [] = Some (states, None)"
    by (simp add: parseMdstat_def)
  from loop_names[OF this] rf show ?thesis by simp
qed

lemma parseMdstat_total: "\<exists>states err. parseMdstat sys path = Some (states, err)"
proof -
  obtain content err where rf: "ReadFile sys path = (content, err)" by (cases "ReadFile sys path")
  show ?thesis
    using loop_total[of "Split content [CHR 0x0A]" 0 "[]"] rf
    by (cases err) (auto simp: parseMdstat_def)
qed

lemma Update_loop_emits:
  "\<exists>ms. Update_loop Namespace float64 states ch = Some (ch @ ms) \<and>
        map labelValues ms = concat (map (\<lambda>d. replicate 5 [mdName d]) states) \<and>
        list_all (\<lambda>m. valType m = GaugeValue) ms"
proof (induction states arbitrary: ch)
  case Nil
  show ?case by simp
next
  case (Cons d states)
  define five where "five =
    [\<lparr>desc = isActiveDesc Namespace, valType = GaugeValue,
       val = (if isActive d then 1 else 0), labelValues = [mdName d]\<rparr>,
     \<lparr>desc = disksActiveDesc Namespace, valType = GaugeValue,
       val = float64 (disksActive d), labelValues = [mdName d]\<rparr>,
     \<lparr>desc = disksTotalDesc Namespace, valType = GaugeValue,
       val = float64 (disksTotal d), labelValues = [mdName d]\<rparr>,
     \<lparr>desc = blocksTotalDesc Namespace, valType = GaugeValue,
       val = float64 (blocksTotal d), labelValues = [mdName d]\<rparr>,
     \<lparr>desc = blocksSyncedDesc Namespace, valType = GaugeValue,
       val = float64 (blocksSynced d), labelValues = [mdName d]\<rparr>]"
  have step: "Update_loop Namespace float64 (d # states) ch =
      Update_loop Namespace float64 states (ch @ five)"
    by (simp add: five_def MustNewConstMetric_def isActiveDesc_def disksActiveDesc_def
          disksTotalDesc_def blocksTotalDesc_def blocksSyncedDesc_def NewDesc_def Let_def)
  from Cons.IH[of "ch @ five"] obtain ms where
    ms: "Update_loop Namespace float64 states (ch @ five) = Some ((ch @ five) @ ms)"
        "map labelValues ms = concat (map (\<lambda>d. replicate 5 [mdName d]) states)"
        "list_all (\<lambda>m. valType m = GaugeValue) ms"
    by blast
  have "Update_loop Namespace float64 (d # states) ch = Some (ch @ (five @ ms))"
    using step ms(1) by simp
  moreover have "map labelValues (five @ ms) =
      concat (map (\<lambda>d. replicate 5 [mdName d]) (d # states))"
    using ms(2) by (simp add: five_def numeral_eq_Suc)
  moreover have "list_all (\<lambda>m. valType m = GaugeValue) (five @ ms)"
    using ms(3) by (simp add: five_def)
  ultimately show ?case by blast
qed

lemma body_status_error:
  assumes "is_header l" and "3 \<le> length (Split l '' '')" and "i + 3 < length lines"
    and "evalStatusline (lines ! (i + 1)) = Some (a, t, z, Some e)"
  shows "parseMdstat_body lines i l acc =
     Some (Return acc (Some (Errorf ''error parsing %s: %s'' [S statusfile, E e])))"
proof -
  from assms(2) have "Split l '' '' \<noteq> []" by auto
  with assms show ?thesis
    by (simp add: parseMdstat_body_def is_header_def index_def Let_def)
qed

lemma body_build_error:
  assumes "is_header l" and "3 \<le> length (Split l '' '')" and "i + 3 < length lines"
    and "evalStatusline (lines ! (i + 1)) = Some (a, t, z, None)"
    and "j = (if Contains (lines ! (i + 2)) ''bitmap'' then i + 3 else i + 2)"
    and "Contains (lines ! j) ''recovery'' \<or> Contains (lines ! j) ''resync''"
    and "evalBuildline (lines ! j) = Some (b, Some e)"
  shows "parseMdstat_body lines i l acc =
     Some (Return acc (Some (Errorf ''error parsing %s: %s'' [S statusfile, E e])))"
proof -
  from assms(2) have "Split l '' '' \<noteq> []" by auto
  with assms show ?thesis
    by (auto simp: parseMdstat_body_def is_header_def index_def Let_def split: if_splits)
qed

lemma loop_error_propagates:
  "(\<forall>acc. \<exists>st e. parseMdstat_loop lines i acc = Some (st, Some e)) \<Longrightarrow> k \<le> i \<Longrightarrow>
   \<exists>st e. parseMdstat_loop lines k acc = Some (st, Some e)"
proof (induction lines k acc rule: parseMdstat_loop.induct)
  case (1 lines k acc)
  show ?case
  proof (cases "k = i")
    case True
    with "1.prems"(1) show ?thesis by blast
  next
    case False
    with "1.prems"(2) have ki: "k < i" by simp
    have "i < length lines"
    proof (rule ccontr)
      assume "\<not> i < length lines"
      then have "parseMdstat_loop lines i [] = Some ([], None)" by (rule loop_end)
      with "1.prems"(1) show False by (metis option.inject option.simps(3) prod.inject)
    qed
    with ki have kl: "k < length lines" by simp
    obtain st where st: "parseMdstat_body lines k (lines ! k) acc = Some st"
      using body_total by blast
    show ?thesis
    proof (cases st)
      case (Return states err)
      with body_Return[of lines k "lines ! k" acc states err] st
      obtain e where "err = Some e" by auto
      with kl st Return show ?thesis by (simp add: loop_step)
    next
      case (Continue states)
      from ki have "k + 1 \<le> i" by simp
      from "1.IH"[OF kl st Continue "1.prems"(1) this]
      show ?thesis using kl st Continue by (simp add: loop_step)
    qed
  qed
qed

section \<open>The claims\<close>

text \<open>
  C1: when the status line of a device matches the status-line pattern and the device is
  recorded, the record's \<open>blocksTotal\<close> is the conversion of the first capture, its
  \<open>disksTotal\<close> that of the second and its \<open>disksActive\<close> that of the third; and
  parsing the worked example gives the single record for \<open>md0\<close>, active, with 2 active
  disks of 2 and 1953511936 blocks, all synced.
\<close>

theorem C1_captures_in_order:
  assumes "is_header l"
    and "parseMdstat_body lines i l mdStates = Some (Continue states)"
    and "FindStringSubmatch statuslineRE (lines ! (i + 1)) = [m0, m1, m2, m3]"
  shows "(\<exists>r. states = mdStates @ [r] \<and>
            ParseInt m1 = (blocksTotal r, None) \<and>
            ParseInt m2 = (disksTotal r, None) \<and>
            ParseInt m3 = (disksActive r, None)) \<and>
         parseMdstat (mdstat_os example_mdstat) statusfile =
           Some ([\<lparr>mdName = ''md0'', isActive = True, disksActive = 2, disksTotal = 2,
                    blocksTotal = 1953511936, blocksSynced = 1953511936\<rparr>], None)"
proof
  from body_Continue_header[OF assms(1,2)] obtain active total' size' synced where
    es: "evalStatusline (lines ! (i + 1)) = Some (active, total', size', None)" and
    st: "states = mdStates @ [\<lparr>mdName = Split l '' '' ! 0,
           isActive = (Split l '' '' ! 2 = ''active''), disksActive = active,
           disksTotal = total', blocksTotal = size', blocksSynced = synced\<rparr>]"
    by blast
  from es have "ParseInt m1 = (size', None) \<and> ParseInt m2 = (total', None) \<and>
      ParseInt m3 = (active, None)"
    unfolding evalStatusline_match[OF assms(3)]
    by (auto split: prod.splits option.splits)
  with st show "\<exists>r. states = mdStates @ [r] \<and>
            ParseInt m1 = (blocksTotal r, None) \<and>
            ParseInt m2 = (disksTotal r, None) \<and>
            ParseInt m3 = (disksActive r, None)"
    by simp
next
  show "parseMdstat (mdstat_os example_mdstat) statusfile =
           Some ([\<lparr>mdName = ''md0'', isActive = True, disksActive = 2, disksTotal = 2,
                    blocksTotal = 1953511936, blocksSynced = 1953511936\<rparr>], None)"
    by code_simp
qed

theorem C1_captures_in_order_witness:
  "is_header (recovery_lines ! 0) \<and>
   parseMdstat_body recovery_lines 0 (recovery_lines ! 0) [] =
     Some (Continue [\<lparr>mdName = ''md0'', isActive = True, disksActive = 1, disksTotal = 2,
                      blocksTotal = 1953511936, blocksSynced = 878780416\<rparr>]) \<and>
   FindStringSubmatch statuslineRE (recovery_lines ! (0 + 1)) =
     [''1953511936 blocks [2/1] [U_]'', ''1953511936'', ''2'', ''1''] \<and>
   ParseInt ''1953511936'' = (1953511936, None) \<and>
   ParseInt ''2'' = (2, None) \<and>
   ParseInt ''1'' = (1, None)"
proof -
  have h1: "is_header (recovery_lines ! 0)"
    by code_simp
  have h2: "parseMdstat_body recovery_lines 0 (recovery_lines ! 0) [] =
     Some (Continue [\<lparr>mdName = ''md0'', isActive = True, disksActive = 1, disksTotal = 2,
                      blocksTotal = 1953511936, blocksSynced = 878780416\<rparr>])"
    by code_simp
  have h3: "FindStringSubmatch statuslineRE (recovery_lines ! (0 + 1)) =
     [''1953511936 blocks [2/1] [U_]'', ''1953511936'', ''2'', ''1'']"
    by code_simp
  from C1_captures_in_order[OF h1 h2 h3] h1 h2 h3 show ?thesis
    by simp
qed

text \<open>
  C3: the parser never panics: for every operating system and path \<open>parseMdstat\<close>
  returns a list of devices and either no error or an error value, and so do
  \<open>evalStatusline\<close> and \<open>evalBuildline\<close> on every line.
\<close>

theorem C3_parser_total:
  "(\<exists>states err. parseMdstat sys path = Some (states, err)) \<and>
   (\<exists>r. evalStatusline s = Some r) \<and> (\<exists>r. evalBuildline s = Some r)"
  using parseMdstat_total evalStatusline_total evalBuildline_total by blast

theorem C3_parser_total_witness:
  "parseMdstat (mdstat_os tab_mdstat) statusfile =
     Some ([\<lparr>mdName = ''md0'', isActive = True, disksActive = 2, disksTotal = 2,
              blocksTotal = 100, blocksSynced = 100\<rparr>],
           Some (Errorf ''error parsing %s: entry for %s has fewer lines than expected''
                  [S ''/proc/mdstat'', S (CHR 0x09 # ''100'')])) \<and>
   evalStatusline ''blocks [2/2] [UU]'' =
     Some (0, 0, 0, Some (Errorf ''too few matches found in statusline: %s''
                           [S ''blocks [2/2] [UU]''])) \<and>
   evalBuildline ''resync'' =
     Some (0, Some (Errorf ''too few matches found in buildline: %s'' [S ''resync'']))"
proof -
  have a: "parseMdstat (mdstat_os tab_mdstat) statusfile =
     Some ([\<lparr>mdName = ''md0'', isActive = True, disksActive = 2, disksTotal = 2,
              blocksTotal = 100, blocksSynced = 100\<rparr>],
           Some (Errorf ''error parsing %s: entry for %s has fewer lines than expected''
                  [S ''/proc/mdstat'', S (CHR 0x09 # ''100'')]))"
    by code_simp
  have b: "evalStatusline ''blocks [2/2] [UU]'' =
     Some (0, 0, 0, Some (Errorf ''too few matches found in statusline: %s''
                           [S ''blocks [2/2] [UU]'']))"
    by code_simp
  have c: "evalBuildline ''resync'' =
     Some (0, Some (Errorf ''too few matches found in buildline: %s'' [S ''resync'']))"
    by code_simp
  from C3_parser_total[of "mdstat_os tab_mdstat" statusfile "''blocks [2/2] [UU]''"] a b c
  show ?thesis by simp
qed

text \<open>
  C4: a line that the scan does not skip is a device header. With fewer than three
  pieces between single spaces, the scan returns from that line with the error that
  carries the raw line, so the parse of the whole text returns an error; otherwise a
  record made for the line has the first piece as its name and is active exactly when
  the third piece is \<open>active\<close>.
\<close>

theorem C4_device_header:
  assumes "i < length lines" and "is_header (lines ! i)"
  shows "(length (Split (lines ! i) '' '') < 3 \<longrightarrow>
            parseMdstat_loop lines i mdStates =
              Some (mdStates, Some (Errorf ''error parsing mdline: %s'' [S (lines ! i)])) \<and>
            (\<exists>states e. parseMdstat_loop lines 0 [] = Some (states, Some e))) \<and>
         (3 \<le> length (Split (lines ! i) '' '') \<longrightarrow>
            (\<forall>states. parseMdstat_body lines i (lines ! i) mdStates = Some (Continue states) \<longrightarrow>
               (\<exists>r. states = mdStates @ [r] \<and> mdName r = Split (lines ! i) '' '' ! 0 \<and>
                    isActive r = (Split (lines ! i) '' '' ! 2 = ''active''))))"
proof (intro conjI impI allI)
  assume short: "length (Split (lines ! i) '' '') < 3"
  have b: "parseMdstat_body lines i (lines ! i) acc =
      Some (Return acc (Some (Errorf ''error parsing mdline: %s'' [S (lines ! i)])))" for acc
    using assms(2) short
    by (simp add: parseMdstat_body_def is_header_def index_def Let_def)
  have l: "parseMdstat_loop lines i acc =
      Some (acc, Some (Errorf ''error parsing mdline: %s'' [S (lines ! i)]))" for acc
    using assms(1) b[of acc] by (simp add: loop_step)
  from l show "parseMdstat_loop lines i mdStates =
      Some (mdStates, Some (Errorf ''error parsing mdline: %s'' [S (lines ! i)]))" .
  from l have "\<forall>acc. \<exists>st e. parseMdstat_loop lines i acc = Some (st, Some e)" by blast
  from loop_error_propagates[OF this, of 0 "[]"]
  show "\<exists>states e. parseMdstat_loop lines 0 [] = Some (states, Some e)" by simp
next
  fix states
  assume "parseMdstat_body lines i (lines ! i) mdStates = Some (Continue states)"
  from body_Continue_header[OF assms(2) this]
  show "\<exists>r. states = mdStates @ [r] \<and> mdName r = Split (lines ! i) '' '' ! 0 \<and>
            isActive r = (Split (lines ! i) '' '' ! 2 = ''active'')"
    by auto
qed

theorem C4_device_header_witness:
  "0 < length short_header_lines \<and> is_header (short_header_lines ! 0) \<and>
   length (Split (short_header_lines ! 0) '' '') < 3 \<and>
   parseMdstat_loop short_header_lines 0 [] =
     Some ([], Some (Errorf ''error parsing mdline: %s'' [S (short_header_lines ! 0)])) \<and>
   short_header_lines ! 0 = ''md0 :'' \<and>
   0 < length recovery_lines \<and>
   is_header (recovery_lines ! 0) \<and> 3 \<le> length (Split (recovery_lines ! 0) '' '') \<and>
   Split (recovery_lines ! 0) '' '' ! 0 = ''md0'' \<and>
   Split (recovery_lines ! 0) '' '' ! 2 = ''active'' \<and>
   parseMdstat_body recovery_lines 0 (recovery_lines ! 0) [] =
     Some (Continue [\<lparr>mdName = ''md0'', isActive = True, disksActive = 1, disksTotal = 2,
                      blocksTotal = 1953511936, blocksSynced = 878780416\<rparr>])"
proof -
  have i1: "0 < length short_header_lines" by code_simp
  have h1: "is_header (short_header_lines ! 0)" by code_simp
  have s1: "length (Split (short_header_lines ! 0) '' '') < 3" by code_simp
  have l1: "short_header_lines ! 0 = ''md0 :''" by code_simp
  have i2: "0 < length recovery_lines" by code_simp
  have h2: "is_header (recovery_lines ! 0)" by code_simp
  have s2: "3 \<le> length (Split (recovery_lines ! 0) '' '')" by code_simp
  have n2: "Split (recovery_lines ! 0) '' '' ! 0 = ''md0''" by code_simp
  have a2: "Split (recovery_lines ! 0) '' '' ! 2 = ''active''" by code_simp
  have b2: "parseMdstat_body recovery_lines 0 (recovery_lines ! 0) [] =
     Some (Continue [\<lparr>mdName = ''md0'', isActive = True, disksActive = 1, disksTotal = 2,
                      blocksTotal = 1953511936, blocksSynced = 878780416\<rparr>])"
    by code_simp
  from C4_device_header[OF i1 h1, of "[]", THEN conjunct1, rule_format, OF s1]
  have w1: "parseMdstat_loop short_header_lines 0 [] =
     Some ([], Some (Errorf ''error parsing mdline: %s'' [S (short_header_lines ! 0)]))"
    by (rule conjunct1)
  from C4_device_header[OF i2 h2, of "[]", THEN conjunct2, rule_format, OF s2 b2]
  have "\<exists>r. [\<lparr>mdName = ''md0'', isActive = True, disksActive = 1, disksTotal = 2,
                      blocksTotal = 1953511936, blocksSynced = 878780416\<rparr>] = [] @ [r]"
    by blast
  show ?thesis
    by (insert i1 h1 s1 w1 l1 i2 h2 s2 n2 a2 b2, (intro conjI; assumption))
qed

text \<open>
  C5: when fewer than three lines remain after a device header, the scan returns from
  that line with the error that carries the source path and the name of the device,
  whatever the remaining lines hold (the status line is not matched), so the parse of
  the whole text returns an error.
\<close>

theorem C5_truncated_section:
  assumes "i < length lines" and "is_header (lines ! i)"
    and "3 \<le> length (Split (lines ! i) '' '')"
    and "length lines - (i + 1) < 3"
  shows "parseMdstat_loop lines i mdStates =
     Some (mdStates, Some (Errorf ''error parsing %s: entry for %s has fewer lines than expected''
        [S ''/proc/mdstat'', S (Split (lines ! i) '' '' ! 0)])) \<and>
     (\<exists>states e. parseMdstat_loop lines 0 [] = Some (states, Some e))"
proof -
  from assms(3) have ne: "Split (lines ! i) '' '' \<noteq> []" by auto
  from assms(1,4) have le: "length lines \<le> i + 3" by arith
  have b: "parseMdstat_body lines i (lines ! i) acc =
     Some (Return acc (Some (Errorf
        ''error parsing %s: entry for %s has fewer lines than expected''
        [S statusfile, S (Split (lines ! i) '' '' ! 0)])))" for acc
    using ne le assms(2,3)
    by (simp add: parseMdstat_body_def is_header_def index_def Let_def)
  have l: "parseMdstat_loop lines i acc =
     Some (acc, Some (Errorf ''error parsing %s: entry for %s has fewer lines than expected''
        [S ''/proc/mdstat'', S (Split (lines ! i) '' '' ! 0)]))" for acc
    using assms(1) b[of acc] by (simp add: loop_step statusfile_def)
  then have "\<forall>acc. \<exists>st e. parseMdstat_loop lines i acc = Some (st, Some e)" by blast
  from loop_error_propagates[OF this, of 0 "[]"] l[of mdStates] show ?thesis by simp
qed

theorem C5_truncated_section_witness:
  "0 < length truncated_lines \<and> is_header (truncated_lines ! 0) \<and>
   3 \<le> length (Split (truncated_lines ! 0) '' '') \<and>
   length truncated_lines - (0 + 1) < 3 \<and>
   Split (truncated_lines ! 0) '' '' ! 0 = ''md0'' \<and>
   parseMdstat_loop truncated_lines 0 [] =
     Some ([], Some (Errorf ''error parsing %s: entry for %s has fewer lines than expected''
        [S ''/proc/mdstat'', S ''md0'']))"
proof -
  have h1: "0 < length truncated_lines" by code_simp
  have h2: "is_header (truncated_lines ! 0)" by code_simp
  have h3: "3 \<le> length (Split (truncated_lines ! 0) '' '')" by code_simp
  have h4: "length truncated_lines - (0 + 1) < 3" by code_simp
  have n: "Split (truncated_lines ! 0) '' '' ! 0 = ''md0''" by code_simp
  from C5_truncated_section[OF h1 h2 h3 h4, of "[]"] h1 h2 h3 h4 n show ?thesis
    by simp
qed

text \<open>
  C6: for a recorded device, let \<open>j\<close> be the line after the status line, or the one
  after that when the former contains \<open>bitmap\<close>. If line \<open>j\<close> contains neither
  \<open>recovery\<close> nor \<open>resync\<close>, the synced blocks are the total blocks; otherwise the
  build-line pattern matches line \<open>j\<close> and the synced blocks are the conversion of its
  one capture.
\<close>

theorem C6_synced_blocks:
  assumes "is_header l"
    and "parseMdstat_body lines i l mdStates = Some (Continue states)"
    and "j = (if Contains (lines ! (i + 2)) ''bitmap'' then i + 3 else i + 2)"
  shows "\<exists>r. states = mdStates @ [r] \<and>
     (if \<not> Contains (lines ! j) ''recovery'' \<and> \<not> Contains (lines ! j) ''resync''
      then blocksSynced r = blocksTotal r
      else \<exists>m0 m1. FindStringSubmatch buildlineRE (lines ! j) = [m0, m1] \<and>
                   ParseInt m1 = (blocksSynced r, None))"
proof -
  from body_Continue_header[OF assms(1,2)] obtain active total' size' synced where
    eb0: "if Contains (lines ! (if Contains (lines ! (i + 2)) ''bitmap'' then i + 3 else i + 2)) ''recovery'' \<or>
         Contains (lines ! (if Contains (lines ! (i + 2)) ''bitmap'' then i + 3 else i + 2)) ''resync''
      then evalBuildline (lines ! (if Contains (lines ! (i + 2)) ''bitmap'' then i + 3 else i + 2))
             = Some (synced, None)
      else synced = size'" and
    st: "states = mdStates @ [\<lparr>mdName = Split l '' '' ! 0,
           isActive = (Split l '' '' ! 2 = ''active''), disksActive = active,
           disksTotal = total', blocksTotal = size', blocksSynced = synced\<rparr>]"
    by blast
  have eb: "if Contains (lines ! j) ''recovery'' \<or> Contains (lines ! j) ''resync''
         then evalBuildline (lines ! j) = Some (synced, None) else synced = size'"
    using eb0 by (simp only: assms(3))
  show ?thesis
  proof (cases "Contains (lines ! j) ''recovery'' \<or> Contains (lines ! j) ''resync''")
    case False
    with eb st show ?thesis by simp
  next
    case True
    with eb have e: "evalBuildline (lines ! j) = Some (synced, None)" by simp
    from buildline_matches[of "lines ! j"] e obtain m0 m1 where
      m: "FindStringSubmatch buildlineRE (lines ! j) = [m0, m1]"
      by (auto simp: evalBuildline_nomatch)
    from e have "ParseInt m1 = (synced, None)"
      unfolding evalBuildline_match[OF m] by (auto split: prod.splits option.splits)
    with m st True show ?thesis by auto
  qed
qed

theorem C6_synced_blocks_witness:
  "is_header (recovery_lines ! 0) \<and>
   parseMdstat_body recovery_lines 0 (recovery_lines ! 0) [] =
     Some (Continue [\<lparr>mdName = ''md0'', isActive = True, disksActive = 1, disksTotal = 2,
                      blocksTotal = 1953511936, blocksSynced = 878780416\<rparr>]) \<and>
   Contains (recovery_lines ! (0 + 2)) ''bitmap'' \<and>
   Contains (recovery_lines ! 3) ''recovery'' \<and>
   (\<exists>m0. FindStringSubmatch buildlineRE (recovery_lines ! 3) = [m0, ''878780416'']) \<and>
   ParseInt ''878780416'' = (878780416, None)"
proof -
  have h1: "is_header (recovery_lines ! 0)" by code_simp
  have h2: "parseMdstat_body recovery_lines 0 (recovery_lines ! 0) [] =
     Some (Continue [\<lparr>mdName = ''md0'', isActive = True, disksActive = 1, disksTotal = 2,
                      blocksTotal = 1953511936, blocksSynced = 878780416\<rparr>])"
    by code_simp
  have bm: "Contains (recovery_lines ! (0 + 2)) ''bitmap''" by code_simp
  then have h3: "(3::nat) = (if Contains (recovery_lines ! (0 + 2)) ''bitmap'' then 0 + 3 else 0 + 2)"
    by simp
  have rc: "Contains (recovery_lines ! 3) ''recovery''" by code_simp
  have fm: "FindStringSubmatch buildlineRE (recovery_lines ! 3) = [''(878780416/1953511936)'', ''878780416'']"
    by code_simp
  from C6_synced_blocks[OF h1 h2 h3] rc fm
  have "ParseInt ''878780416'' = (878780416, None)" by simp
  with h1 h2 bm rc fm show ?thesis by simp
qed

text \<open>
  C7: when the parse succeeds, the records are, in order, those of the lines of the
  text that the scan treats as device headers: the names of the records are the first
  pieces of these lines, one record for each, in the order of the lines.
\<close>

theorem C7_records_in_header_order:
  assumes "parseMdstat sys path = Some (states, None)"
  shows "map mdName states =
           map (\<lambda>l. Split l '' '' ! 0)
               (filter is_header (Split (fst (ReadFile sys path)) [CHR 0x0A])) \<and>
         length states = length (filter is_header (Split (fst (ReadFile sys path)) [CHR 0x0A]))"
proof -
  note n = parseMdstat_names[OF assms]
  have "length (map mdName states) =
      length (map (\<lambda>l. Split l '' '' ! 0)
               (filter is_header (Split (fst (ReadFile sys path)) [CHR 0x0A])))"
    by (simp only: n)
  then have "length states = length (filter is_header (Split (fst (ReadFile sys path)) [CHR 0x0A]))"
    by simp
  with n show ?thesis by simp
qed

theorem C7_records_in_header_order_witness:
  "parseMdstat (mdstat_os unindented_mdstat) statusfile =
     Some ([\<lparr>mdName = ''md0'', isActive = True, disksActive = 2, disksTotal = 2,
              blocksTotal = 100, blocksSynced = 100\<rparr>,
            \<lparr>mdName = ''100'', isActive = False, disksActive = 3, disksTotal = 3,
              blocksTotal = 200, blocksSynced = 200\<rparr>], None) \<and>
   map (\<lambda>l. Split l '' '' ! 0)
       (filter is_header (Split (fst (ReadFile (mdstat_os unindented_mdstat) statusfile)) [CHR 0x0A]))
     = [''md0'', ''100'']"
proof -
  have h: "parseMdstat (mdstat_os unindented_mdstat) statusfile =
     Some ([\<lparr>mdName = ''md0'', isActive = True, disksActive = 2, disksTotal = 2,
              blocksTotal = 100, blocksSynced = 100\<rparr>,
            \<lparr>mdName = ''100'', isActive = False, disksActive = 3, disksTotal = 3,
              blocksTotal = 200, blocksSynced = 200\<rparr>], None)"
    by code_simp
  from C7_records_in_header_order[OF h] h show ?thesis by simp
qed

text \<open>
  C2 (as amended): the match result of a line is either empty, and then the line is
  rejected with the error \<open>too few matches\<close>, or has exactly the expected number of
  entries, those of the leftmost match: four for the status-line pattern, two for the
  build-line pattern. The error \<open>too many matches\<close> is never returned.
\<close>

theorem C2_capture_count:
  "(FindStringSubmatch statuslineRE s = [] \<or>
      length (FindStringSubmatch statuslineRE s) = 3 + 1) \<and>
   (FindStringSubmatch buildlineRE s = [] \<or>
      length (FindStringSubmatch buildlineRE s) = 1 + 1) \<and>
   (evalStatusline s =
      Some (0, 0, 0, Some (Errorf ''too few matches found in statusline: %s'' [S s])))
     = (FindStringSubmatch statuslineRE s = []) \<and>
   evalStatusline s \<noteq>
      Some (0, 0, 0, Some (Errorf ''too many matches found in statusline: %s'' [S s])) \<and>
   (evalBuildline s =
      Some (0, Some (Errorf ''too few matches found in buildline: %s'' [S s])))
     = (FindStringSubmatch buildlineRE s = []) \<and>
   evalBuildline s \<noteq>
      Some (0, Some (Errorf ''too many matches found in buildline: %s'' [S s]))"
proof -
  have st: "(FindStringSubmatch statuslineRE s = [] \<or>
      length (FindStringSubmatch statuslineRE s) = 3 + 1) \<and>
   (evalStatusline s =
      Some (0, 0, 0, Some (Errorf ''too few matches found in statusline: %s'' [S s])))
     = (FindStringSubmatch statuslineRE s = []) \<and>
   evalStatusline s \<noteq>
      Some (0, 0, 0, Some (Errorf ''too many matches found in statusline: %s'' [S s]))"
    using statusline_matches[of s]
  proof
    assume "FindStringSubmatch statuslineRE s = []"
    then show ?thesis by (simp add: evalStatusline_nomatch)
  next
    assume "\<exists>m0 m1 m2 m3. FindStringSubmatch statuslineRE s = [m0, m1, m2, m3] \<and>
      digits m1 \<and> digits m2 \<and> digits m3"
    then obtain m0 m1 m2 m3 where m: "FindStringSubmatch statuslineRE s = [m0, m1, m2, m3]"
      by blast
    show ?thesis
      by (simp add: m evalStatusline_match[OF m] split: prod.splits option.splits)
  qed
  have bl: "(FindStringSubmatch buildlineRE s = [] \<or>
      length (FindStringSubmatch buildlineRE s) = 1 + 1) \<and>
   (evalBuildline s =
      Some (0, Some (Errorf ''too few matches found in buildline: %s'' [S s])))
     = (FindStringSubmatch buildlineRE s = []) \<and>
   evalBuildline s \<noteq>
      Some (0, Some (Errorf ''too many matches found in buildline: %s'' [S s]))"
    using buildline_matches[of s]
  proof
    assume "FindStringSubmatch buildlineRE s = []"
    then show ?thesis by (simp add: evalBuildline_nomatch)
  next
    assume "\<exists>m0 m1. FindStringSubmatch buildlineRE s = [m0, m1] \<and> digits m1"
    then obtain m0 m1 where m: "FindStringSubmatch buildlineRE s = [m0, m1]"
      by blast
    show ?thesis
      by (simp add: m evalBuildline_match[OF m] split: prod.splits option.splits)
  qed
  from st bl show ?thesis by blast
qed

theorem C2_capture_count_witness:
  "FindStringSubmatch statuslineRE ''      100 blocks [9/9] [2/1] [U_]'' =
     [''100 blocks [9/9] [2/1] [U_]'', ''100'', ''2'', ''1''] \<and>
   FindStringSubmatch buildlineRE ''recovery (40/100) (7/8)'' = [''(40/100)'', ''40''] \<and>
   evalStatusline ''      100 blocks [9/9] [2/1] [U_]'' \<noteq>
      Some (0, 0, 0, Some (Errorf ''too many matches found in statusline: %s''
                            [S ''      100 blocks [9/9] [2/1] [U_]''])) \<and>
   evalBuildline ''recovery (40/100) (7/8)'' \<noteq>
      Some (0, Some (Errorf ''too many matches found in buildline: %s''
                      [S ''recovery (40/100) (7/8)'']))"
proof -
  have a: "FindStringSubmatch statuslineRE ''      100 blocks [9/9] [2/1] [U_]'' =
     [''100 blocks [9/9] [2/1] [U_]'', ''100'', ''2'', ''1'']"
    by code_simp
  have b: "FindStringSubmatch buildlineRE ''recovery (40/100) (7/8)'' = [''(40/100)'', ''40'']"
    by code_simp
  from C2_capture_count[of "''      100 blocks [9/9] [2/1] [U_]''"]
       C2_capture_count[of "''recovery (40/100) (7/8)''"] a b
  show ?thesis by blast
qed

theorem C2_counterexample:
  "parseMdstat (mdstat_os extra_groups_mdstat) statusfile =
     Some ([\<lparr>mdName = ''md0'', isActive = True, disksActive = 1, disksTotal = 2,
              blocksTotal = 100, blocksSynced = 40\<rparr>], None) \<and>
   evalStatusline ''      100 blocks [9/9] [2/1] [U_]'' = Some (1, 2, 100, None) \<and>
   evalBuildline ''      [==>..]  recovery = 40.0% (40/100) (7/8) finish=1.0min'' =
     Some (40, None)"
  by code_simp

text \<open>
  C8: the collection pass emits nothing unless everything succeeds. When
  \<^verbatim>\<open>/proc/mdstat\<close> does not exist, nothing is sent and no error is returned; when the
  parse returns an error, nothing is sent and the error is returned, wrapped; when the
  parse succeeds, five gauges are sent for each device, in the order of the devices,
  each with the name of the device as its only label value. In every case the pass
  returns, and a pass that returns an error has sent nothing.
\<close>

theorem C8_all_or_nothing:
  "(IsNotExist (Stat sys statusfile) \<longrightarrow>
      Update Namespace float64 sys ch = Some (ch, None)) \<and>
   (\<forall>states e. Stat sys statusfile = None \<and>
        parseMdstat sys statusfile = Some (states, Some e) \<longrightarrow>
      Update Namespace float64 sys ch =
        Some (ch, Some (Errorf ''error parsing %s: %s'' [S statusfile, E e]))) \<and>
   (\<forall>states. Stat sys statusfile = None \<and>
        parseMdstat sys statusfile = Some (states, None) \<longrightarrow>
      (\<exists>ms. Update Namespace float64 sys ch = Some (ch @ ms, None) \<and>
            map labelValues ms = concat (map (\<lambda>d. replicate 5 [mdName d]) states) \<and>
            list_all (\<lambda>m. valType m = GaugeValue) ms)) \<and>
   (\<exists>ms err. Update Namespace float64 sys ch = Some (ch @ ms, err) \<and>
      (err \<noteq> None \<longrightarrow> ms = []))"
proof -
  have absent: "IsNotExist (Stat sys statusfile) \<longrightarrow>
      Update Namespace float64 sys ch = Some (ch, None)"
    by (simp add: Update_def)
  have failed: "Update Namespace float64 sys ch =
        Some (ch, Some (Errorf ''error parsing %s: %s'' [S statusfile, E e]))"
    if "Stat sys statusfile = None" "parseMdstat sys statusfile = Some (states, Some e)"
    for states e
    using that by (simp add: Update_def)
  have ok: "\<exists>ms. Update Namespace float64 sys ch = Some (ch @ ms, None) \<and>
            map labelValues ms = concat (map (\<lambda>d. replicate 5 [mdName d]) states) \<and>
            list_all (\<lambda>m. valType m = GaugeValue) ms"
    if "Stat sys statusfile = None" "parseMdstat sys statusfile = Some (states, None)"
    for states
  proof -
    from Update_loop_emits[of Namespace float64 states ch] obtain ms where
      ms: "Update_loop Namespace float64 states ch = Some (ch @ ms)"
        "map labelValues ms = concat (map (\<lambda>d. replicate 5 [mdName d]) states)"
        "list_all (\<lambda>m. valType m = GaugeValue) ms"
      by blast
    from that ms(1) have "Update Namespace float64 sys ch = Some (ch @ ms, None)"
      by (simp add: Update_def)
    with ms(2,3) show ?thesis by blast
  qed
  have all: "\<exists>ms err. Update Namespace float64 sys ch = Some (ch @ ms, err) \<and>
      (err \<noteq> None \<longrightarrow> ms = [])"
  proof (cases "Stat sys statusfile")
    case (Some e)
    then show ?thesis by (auto simp: Update_def Let_def)
  next
    case None
    obtain states err where p: "parseMdstat sys statusfile = Some (states, err)"
      using parseMdstat_total by blast
    show ?thesis
    proof (cases err)
      case (Some e)
      with failed[OF None] p show ?thesis by auto
    next
      case None': None
      with ok[OF None] p show ?thesis by auto
    qed
  qed
  from absent failed ok all show ?thesis by blast
qed

theorem C8_all_or_nothing_witness:
  "IsNotExist (Stat absent_os statusfile) \<and>
   Update ''node'' (\<lambda>w. real_of_int (sint w)) absent_os [] = Some ([], None) \<and>
   Stat (mdstat_os tab_mdstat) statusfile = None \<and>
   Update ''node'' (\<lambda>w. real_of_int (sint w)) (mdstat_os tab_mdstat) [] =
     Some ([], Some (Errorf ''error parsing %s: %s'' [S statusfile,
       E (Errorf ''error parsing %s: entry for %s has fewer lines than expected''
                  [S ''/proc/mdstat'', S (CHR 0x09 # ''100'')])])) \<and>
   Stat (mdstat_os example_mdstat) statusfile = None \<and>
   (\<exists>ms. Update ''node'' (\<lambda>w. real_of_int (sint w)) (mdstat_os example_mdstat) [] =
            Some (ms, None) \<and>
         map labelValues ms = [[''md0''], [''md0''], [''md0''], [''md0''], [''md0'']])"
proof -
  have a: "IsNotExist (Stat absent_os statusfile)" by code_simp
  have s1: "Stat (mdstat_os tab_mdstat) statusfile = None" by code_simp
  have p1: "parseMdstat (mdstat_os tab_mdstat) statusfile =
     Some ([\<lparr>mdName = ''md0'', isActive = True, disksActive = 2, disksTotal = 2,
              blocksTotal = 100, blocksSynced = 100\<rparr>],
           Some (Errorf ''error parsing %s: entry for %s has fewer lines than expected''
                  [S ''/proc/mdstat'', S (CHR 0x09 # ''100'')]))"
    by code_simp
  have s2: "Stat (mdstat_os example_mdstat) statusfile = None" by code_simp
  have p2: "parseMdstat (mdstat_os example_mdstat) statusfile =
           Some ([\<lparr>mdName = ''md0'', isActive = True, disksActive = 2, disksTotal = 2,
                    blocksTotal = 1953511936, blocksSynced = 1953511936\<rparr>], None)"
    by code_simp
  have w1: "Update ''node'' (\<lambda>w. real_of_int (sint w)) absent_os [] = Some ([], None)"
    using C8_all_or_nothing[of absent_os "''node''" "\<lambda>w. real_of_int (sint w)" "[]"] a
    by blast
  have w2: "Update ''node'' (\<lambda>w. real_of_int (sint w)) (mdstat_os tab_mdstat) [] =
     Some ([], Some (Errorf ''error parsing %s: %s'' [S statusfile,
       E (Errorf ''error parsing %s: entry for %s has fewer lines than expected''
                  [S ''/proc/mdstat'', S (CHR 0x09 # ''100'')])]))"
    using C8_all_or_nothing[of "mdstat_os tab_mdstat" "''node''" "\<lambda>w. real_of_int (sint w)" "[]"]
      s1 p1 by blast
  have w3: "\<exists>ms. Update ''node'' (\<lambda>w. real_of_int (sint w)) (mdstat_os example_mdstat) [] =
            Some (ms, None) \<and>
         map labelValues ms = [[''md0''], [''md0''], [''md0''], [''md0''], [''md0'']]"
  proof -
    from C8_all_or_nothing[of "mdstat_os example_mdstat" "''node''"
        "\<lambda>w. real_of_int (sint w)" "[]"] s2 p2
    obtain ms where "Update ''node'' (\<lambda>w. real_of_int (sint w)) (mdstat_os example_mdstat) [] =
            Some ([] @ ms, None)"
      "map labelValues ms = concat (map (\<lambda>d. replicate 5 [mdName d])
         [\<lparr>mdName = ''md0'', isActive = True, disksActive = 2, disksTotal = 2,
                    blocksTotal = 1953511936, blocksSynced = 1953511936\<rparr>])"
      by blast
    then show ?thesis by (simp add: numeral_eq_Suc)
  qed
  from a s1 s2 w1 w2 w3 show ?thesis by blast
qed

text \<open>
  C9 (as amended): an empty line and a line that begins with a space are skipped. After
  a device has been recorded from line \<open>i\<close> the scan goes on with line \<open>i + 1\<close>, the
  first line of the section it has just read, so the lines of the section are kept from
  being read as device headers only by being skipped themselves; in a successful parse
  there is one record for each line that is not skipped.
\<close>

theorem C9_skipped_lines:
  "(l = [] \<or> l ! 0 = CHR '' '' \<longrightarrow>
      parseMdstat_body lines i l mdStates = Some (Continue mdStates)) \<and>
   (\<forall>states. i < length lines \<and>
        parseMdstat_body lines i (lines ! i) mdStates = Some (Continue states) \<longrightarrow>
      parseMdstat_loop lines i mdStates = parseMdstat_loop lines (i + 1) states) \<and>
   (\<forall>states. parseMdstat sys path = Some (states, None) \<longrightarrow>
      length states = length (filter is_header (Split (fst (ReadFile sys path)) [CHR 0x0A])))"
proof (intro conjI impI allI)
  assume "l = [] \<or> l ! 0 = CHR '' ''"
  then have "\<not> is_header l" by (auto simp: is_header_def)
  then show "parseMdstat_body lines i l mdStates = Some (Continue mdStates)"
    by (rule body_skip)
next
  fix states
  assume "i < length lines \<and>
        parseMdstat_body lines i (lines ! i) mdStates = Some (Continue states)"
  then show "parseMdstat_loop lines i mdStates = parseMdstat_loop lines (i + 1) states"
    by (simp add: loop_step)
next
  fix states
  assume "parseMdstat sys path = Some (states, None)"
  from parseMdstat_names[OF this]
  have "length (map mdName states) =
      length (map (\<lambda>l. Split l '' '' ! 0)
               (filter is_header (Split (fst (ReadFile sys path)) [CHR 0x0A])))"
    by (simp only:)
  then show "length states =
      length (filter is_header (Split (fst (ReadFile sys path)) [CHR 0x0A]))"
    by simp
qed

theorem C9_skipped_lines_witness:
  "parseMdstat_body recovery_lines 1 (recovery_lines ! 1) [] = Some (Continue []) \<and>
   parseMdstat_body recovery_lines 4 (recovery_lines ! 4) [] = Some (Continue []) \<and>
   parseMdstat_loop recovery_lines 0 [] =
     parseMdstat_loop recovery_lines (0 + 1)
       [\<lparr>mdName = ''md0'', isActive = True, disksActive = 1, disksTotal = 2,
          blocksTotal = 1953511936, blocksSynced = 878780416\<rparr>] \<and>
   length (filter is_header
     (Split (fst (ReadFile (mdstat_os example_mdstat) statusfile)) [CHR 0x0A])) = 1"
proof -
  have a: "recovery_lines ! 1 ! 0 = CHR '' ''" by code_simp
  have b: "recovery_lines ! 4 = []" by code_simp
  have c: "0 < length recovery_lines \<and>
      parseMdstat_body recovery_lines 0 (recovery_lines ! 0) [] =
     Some (Continue [\<lparr>mdName = ''md0'', isActive = True, disksActive = 1, disksTotal = 2,
                      blocksTotal = 1953511936, blocksSynced = 878780416\<rparr>])"
    by code_simp
  have d: "parseMdstat (mdstat_os example_mdstat) statusfile =
           Some ([\<lparr>mdName = ''md0'', isActive = True, disksActive = 2, disksTotal = 2,
                    blocksTotal = 1953511936, blocksSynced = 1953511936\<rparr>], None)"
    by code_simp
  have w1: "parseMdstat_body recovery_lines 1 (recovery_lines ! 1) [] = Some (Continue [])"
    using C9_skipped_lines[of "recovery_lines ! 1" recovery_lines 1 "[]"] a by blast
  have w2: "parseMdstat_body recovery_lines 4 (recovery_lines ! 4) [] = Some (Continue [])"
    using C9_skipped_lines[of "recovery_lines ! 4" recovery_lines 4 "[]"] b by blast
  have w3: "parseMdstat_loop recovery_lines 0 [] =
     parseMdstat_loop recovery_lines (0 + 1)
       [\<lparr>mdName = ''md0'', isActive = True, disksActive = 1, disksTotal = 2,
          blocksTotal = 1953511936, blocksSynced = 878780416\<rparr>]"
    using C9_skipped_lines[of _ recovery_lines 0 "[]"] c by blast
  have w4: "length (filter is_header
     (Split (fst (ReadFile (mdstat_os example_mdstat) statusfile)) [CHR 0x0A])) = 1"
    using C9_skipped_lines[of _ _ _ _ "mdstat_os example_mdstat" statusfile] d by fastforce
  from w1 w2 w3 w4 show ?thesis by blast
qed

theorem C9_counterexample:
  "parseMdstat (mdstat_os unindented_mdstat) statusfile =
     Some ([\<lparr>mdName = ''md0'', isActive = True, disksActive = 2, disksTotal = 2,
              blocksTotal = 100, blocksSynced = 100\<rparr>,
            \<lparr>mdName = ''100'', isActive = False, disksActive = 3, disksTotal = 3,
              blocksTotal = 200, blocksSynced = 200\<rparr>], None) \<and>
   parseMdstat (mdstat_os tab_mdstat) statusfile =
     Some ([\<lparr>mdName = ''md0'', isActive = True, disksActive = 2, disksTotal = 2,
              blocksTotal = 100, blocksSynced = 100\<rparr>],
           Some (Errorf ''error parsing %s: entry for %s has fewer lines than expected''
                  [S ''/proc/mdstat'', S (CHR 0x09 # ''100'')]))"
  by code_simp

text \<open>
  C10: the captures of a status line are non-empty strings of decimal digits, and such a
  string converts to the number it writes when that is at most \<open>2 ^ 63 - 1\<close>, and to a
  range error otherwise, which is the only failure. When a capture of the status line
  of a device exceeds \<open>2 ^ 63 - 1\<close>, the scan returns from the line of the device with
  the conversion error that carries the status line; when the status line converts and
  the capture of the build line exceeds \<open>2 ^ 63 - 1\<close>, it returns the conversion error
  that carries the build line. In both cases the parse of the whole text returns an
  error.
\<close>

theorem C10_int64_conversion:
  assumes "is_header (lines ! i)" and "3 \<le> length (Split (lines ! i) '' '')"
    and "i + 3 < length lines"
    and "FindStringSubmatch statuslineRE (lines ! (i + 1)) = [m0, m1, m2, m3]"
  shows "digits m1 \<and> digits m2 \<and> digits m3 \<and>
    (\<forall>m. digits m \<longrightarrow>
       ParseInt m = (if dec m < 2 ^ 63 then (of_nat (dec m), None)
                     else (9223372036854775807, Some (NumError ''ParseInt'' m ErrRange))) \<and>
       (dec m < 2 ^ 63 \<longrightarrow> sint (of_nat (dec m) :: int64) = int (dec m))) \<and>
    (2 ^ 63 \<le> dec m1 \<or> 2 ^ 63 \<le> dec m2 \<or> 2 ^ 63 \<le> dec m3 \<longrightarrow>
       (\<exists>m. (m = m1 \<or> m = m2 \<or> m = m3) \<and> 2 ^ 63 \<le> dec m \<and>
          parseMdstat_loop lines i mdStates =
            Some (mdStates, Some (Errorf ''error parsing %s: %s''
              [S statusfile, E (Errorf ''%s in statusline: %s''
                 [E (NumError ''ParseInt'' m ErrRange), S (lines ! (i + 1))])]))) \<and>
       (\<exists>states e. parseMdstat_loop lines 0 [] = Some (states, Some e))) \<and>
    (\<forall>j b0 b1. dec m1 < 2 ^ 63 \<and> dec m2 < 2 ^ 63 \<and> dec m3 < 2 ^ 63 \<and>
        j = (if Contains (lines ! (i + 2)) ''bitmap'' then i + 3 else i + 2) \<and>
        (Contains (lines ! j) ''recovery'' \<or> Contains (lines ! j) ''resync'') \<and>
        FindStringSubmatch buildlineRE (lines ! j) = [b0, b1] \<and> 2 ^ 63 \<le> dec b1 \<longrightarrow>
       digits b1 \<and>
       parseMdstat_loop lines i mdStates =
         Some (mdStates, Some (Errorf ''error parsing %s: %s''
           [S statusfile, E (Errorf ''%s in buildline: %s''
              [E (NumError ''ParseInt'' b1 ErrRange), S (lines ! j)])])) \<and>
       (\<exists>states e. parseMdstat_loop lines 0 [] = Some (states, Some e)))"
proof -
  from assms(3) have il: "i < length lines" by simp
  from statusline_matches[of "lines ! (i + 1)"] assms(4)
  have d: "digits m1" "digits m2" "digits m3" by simp_all
  note p1 = ParseInt_digits[OF d(1)] and p2 = ParseInt_digits[OF d(2)]
    and p3 = ParseInt_digits[OF d(3)]
  note es = evalStatusline_match[OF assms(4)]
  have conv: "\<forall>m. digits m \<longrightarrow>
       ParseInt m = (if dec m < 2 ^ 63 then (of_nat (dec m), None)
                     else (9223372036854775807, Some (NumError ''ParseInt'' m ErrRange))) \<and>
       (dec m < 2 ^ 63 \<longrightarrow> sint (of_nat (dec m) :: int64) = int (dec m))"
    using ParseInt_digits sint_of_nat_small by blast
  have status: "(\<exists>m. (m = m1 \<or> m = m2 \<or> m = m3) \<and> 2 ^ 63 \<le> dec m \<and>
          parseMdstat_loop lines i mdStates =
            Some (mdStates, Some (Errorf ''error parsing %s: %s''
              [S statusfile, E (Errorf ''%s in statusline: %s''
                 [E (NumError ''ParseInt'' m ErrRange), S (lines ! (i + 1))])]))) \<and>
       (\<exists>states e. parseMdstat_loop lines 0 [] = Some (states, Some e))"
    if big: "2 ^ 63 \<le> dec m1 \<or> 2 ^ 63 \<le> dec m2 \<or> 2 ^ 63 \<le> dec m3"
  proof -
    have "\<exists>m. (m = m1 \<or> m = m2 \<or> m = m3) \<and> 2 ^ 63 \<le> dec m \<and>
      evalStatusline (lines ! (i + 1)) = Some (0, 0, 0, Some (Errorf ''%s in statusline: %s''
                 [E (NumError ''ParseInt'' m ErrRange), S (lines ! (i + 1))]))"
    proof (cases "2 ^ 63 \<le> dec m1")
      case True
      then have "evalStatusline (lines ! (i + 1)) = Some (0, 0, 0, Some (Errorf ''%s in statusline: %s''
                 [E (NumError ''ParseInt'' m1 ErrRange), S (lines ! (i + 1))]))"
        unfolding es p1 by simp
      with True show ?thesis by blast
    next
      case f1: False
      show ?thesis
      proof (cases "2 ^ 63 \<le> dec m2")
        case True
        with f1 have "evalStatusline (lines ! (i + 1)) = Some (0, 0, 0, Some (Errorf ''%s in statusline: %s''
                 [E (NumError ''ParseInt'' m2 ErrRange), S (lines ! (i + 1))]))"
          unfolding es p1 p2 by simp
        with True show ?thesis by blast
      next
        case f2: False
        with f1 big have b3: "2 ^ 63 \<le> dec m3" by simp
        with f1 f2 have "evalStatusline (lines ! (i + 1)) = Some (0, 0, 0, Some (Errorf ''%s in statusline: %s''
                 [E (NumError ''ParseInt'' m3 ErrRange), S (lines ! (i + 1))]))"
          unfolding es p1 p2 p3 by simp
        with b3 show ?thesis by blast
      qed
    qed
    then obtain m where m: "m = m1 \<or> m = m2 \<or> m = m3" "2 ^ 63 \<le> dec m"
      "evalStatusline (lines ! (i + 1)) = Some (0, 0, 0, Some (Errorf ''%s in statusline: %s''
                 [E (NumError ''ParseInt'' m ErrRange), S (lines ! (i + 1))]))"
      by blast
    have l: "parseMdstat_loop lines i acc =
            Some (acc, Some (Errorf ''error parsing %s: %s''
              [S statusfile, E (Errorf ''%s in statusline: %s''
                 [E (NumError ''ParseInt'' m ErrRange), S (lines ! (i + 1))])]))" for acc
      using body_status_error[OF assms(1,2,3) m(3), of acc] il by (simp add: loop_step)
    then have "\<forall>acc. \<exists>st e. parseMdstat_loop lines i acc = Some (st, Some e)" by blast
    from loop_error_propagates[OF this, of 0 "[]"] l[of mdStates] m(1,2)
    show ?thesis by blast
  qed
  have build: "digits b1 \<and>
       parseMdstat_loop lines i mdStates =
         Some (mdStates, Some (Errorf ''error parsing %s: %s''
           [S statusfile, E (Errorf ''%s in buildline: %s''
              [E (NumError ''ParseInt'' b1 ErrRange), S (lines ! j)])])) \<and>
       (\<exists>states e. parseMdstat_loop lines 0 [] = Some (states, Some e))"
    if ok: "dec m1 < 2 ^ 63" "dec m2 < 2 ^ 63" "dec m3 < 2 ^ 63"
      and j: "j = (if Contains (lines ! (i + 2)) ''bitmap'' then i + 3 else i + 2)"
      and bl: "Contains (lines ! j) ''recovery'' \<or> Contains (lines ! j) ''resync''"
      and bm: "FindStringSubmatch buildlineRE (lines ! j) = [b0, b1]"
      and big: "2 ^ 63 \<le> dec b1"
    for j b0 b1
  proof -
    from buildline_matches[of "lines ! j"] bm have db: "digits b1" by simp
    have s: "evalStatusline (lines ! (i + 1)) =
        Some (of_nat (dec m3), of_nat (dec m2), of_nat (dec m1), None)"
      using ok unfolding es p1 p2 p3 by simp
    have b: "evalBuildline (lines ! j) = Some (0, Some (Errorf ''%s in buildline: %s''
              [E (NumError ''ParseInt'' b1 ErrRange), S (lines ! j)]))"
      using big by (simp add: evalBuildline_match[OF bm] ParseInt_digits[OF db])
    have l: "parseMdstat_loop lines i acc =
         Some (acc, Some (Errorf ''error parsing %s: %s''
           [S statusfile, E (Errorf ''%s in buildline: %s''
              [E (NumError ''ParseInt'' b1 ErrRange), S (lines ! j)])]))" for acc
      using body_build_error[OF assms(1,2,3) s j bl b, of acc] il by (simp add: loop_step)
    then have "\<forall>acc. \<exists>st e. parseMdstat_loop lines i acc = Some (st, Some e)" by blast
    from loop_error_propagates[OF this, of 0 "[]"] l[of mdStates] db
    show ?thesis by blast
  qed
  from d conv status build show ?thesis by blast
qed

theorem C10_int64_conversion_witness:
  "is_header (overflow_lines ! 0) \<and> 3 \<le> length (Split (overflow_lines ! 0) '' '') \<and>
   0 + 3 < length overflow_lines \<and>
   FindStringSubmatch statuslineRE (overflow_lines ! (0 + 1)) =
     [''9223372036854775808 blocks [2/2] [UU]'', ''9223372036854775808'', ''2'', ''2''] \<and>
   dec ''9223372036854775808'' = 2 ^ 63 \<and>
   ParseInt ''9223372036854775808'' =
     (9223372036854775807, Some (NumError ''ParseInt'' ''9223372036854775808'' ErrRange)) \<and>
   ParseInt ''2'' = (2, None) \<and>
   parseMdstat_loop overflow_lines 0 [] =
     Some ([], Some (Errorf ''error parsing %s: %s''
       [S statusfile, E (Errorf ''%s in statusline: %s''
          [E (NumError ''ParseInt'' ''9223372036854775808'' ErrRange),
           S (overflow_lines ! (0 + 1))])])) \<and>
   is_header (overflow_build_lines ! 0) \<and>
   3 \<le> length (Split (overflow_build_lines ! 0) '' '') \<and>
   0 + 3 < length overflow_build_lines \<and>
   FindStringSubmatch statuslineRE (overflow_build_lines ! (0 + 1)) =
     [''100 blocks [2/1] [U_]'', ''100'', ''2'', ''1''] \<and>
   Contains (overflow_build_lines ! 2) ''recovery'' \<and>
   FindStringSubmatch buildlineRE (overflow_build_lines ! 2) =
     [''(9223372036854775808/100)'', ''9223372036854775808''] \<and>
   parseMdstat_loop overflow_build_lines 0 [] =
     Some ([], Some (Errorf ''error parsing %s: %s''
       [S statusfile, E (Errorf ''%s in buildline: %s''
          [E (NumError ''ParseInt'' ''9223372036854775808'' ErrRange),
           S (overflow_build_lines ! 2)])]))"
proof -
  have h1: "is_header (overflow_lines ! 0)" by code_simp
  have h2: "3 \<le> length (Split (overflow_lines ! 0) '' '')" by code_simp
  have h3: "0 + 3 < length overflow_lines" by code_simp
  have h4: "FindStringSubmatch statuslineRE (overflow_lines ! (0 + 1)) =
     [''9223372036854775808 blocks [2/2] [UU]'', ''9223372036854775808'', ''2'', ''2'']"
    by code_simp
  have d1: "dec ''9223372036854775808'' = 2 ^ 63"
    by (simp add: dec_def dec_from_def)
  have d2: "dec ''2'' = 2" by (simp add: dec_def dec_from_def)
  have d3: "dec ''1'' = 1" by (simp add: dec_def dec_from_def)
  have d4: "dec ''100'' = 100" by (simp add: dec_def dec_from_def)
  note t1 = C10_int64_conversion[OF h1 h2 h3 h4, of "[]"]
  from t1 have dg: "digits ''9223372036854775808''" "digits ''2''" by blast+
  note conv = t1[THEN conjunct2, THEN conjunct2, THEN conjunct2, THEN conjunct1, rule_format]
  from conv[OF dg(1)] d1 have p1: "ParseInt ''9223372036854775808'' =
     (9223372036854775807, Some (NumError ''ParseInt'' ''9223372036854775808'' ErrRange))"
    by simp
  from conv[OF dg(2)] d2 have p2: "ParseInt ''2'' = (2, None)"
    by simp
  note st = t1[THEN conjunct2, THEN conjunct2, THEN conjunct2, THEN conjunct2,
      THEN conjunct1, rule_format]
  from d1 have "2 ^ 63 \<le> dec ''9223372036854775808'' \<or> 2 ^ 63 \<le> dec ''2'' \<or> 2 ^ 63 \<le> dec ''2''"
    by simp
  from st[OF this, THEN conjunct1]
  obtain m where m: "m = ''9223372036854775808'' \<or> m = ''2'' \<or> m = ''2''"
    "2 ^ 63 \<le> dec m"
    "parseMdstat_loop overflow_lines 0 [] =
      Some ([], Some (Errorf ''error parsing %s: %s''
       [S statusfile, E (Errorf ''%s in statusline: %s''
          [E (NumError ''ParseInt'' m ErrRange), S (overflow_lines ! (0 + 1))])]))"
    by blast
  from m(1,2) d2 have "m = ''9223372036854775808''" by auto
  with m(3) have b1: "parseMdstat_loop overflow_lines 0 [] =
     Some ([], Some (Errorf ''error parsing %s: %s''
       [S statusfile, E (Errorf ''%s in statusline: %s''
          [E (NumError ''ParseInt'' ''9223372036854775808'' ErrRange),
           S (overflow_lines ! (0 + 1))])]))"
    by simp
  have g1: "is_header (overflow_build_lines ! 0)" by code_simp
  have g2: "3 \<le> length (Split (overflow_build_lines ! 0) '' '')" by code_simp
  have g3: "0 + 3 < length overflow_build_lines" by code_simp
  have g4: "FindStringSubmatch statuslineRE (overflow_build_lines ! (0 + 1)) =
     [''100 blocks [2/1] [U_]'', ''100'', ''2'', ''1'']"
    by code_simp
  have g5: "\<not> Contains (overflow_build_lines ! (0 + 2)) ''bitmap''" by code_simp
  have g6: "Contains (overflow_build_lines ! 2) ''recovery''" by code_simp
  have g7: "FindStringSubmatch buildlineRE (overflow_build_lines ! 2) =
     [''(9223372036854775808/100)'', ''9223372036854775808'']"
    by code_simp
  note t2 = C10_int64_conversion[OF g1 g2 g3 g4, of "[]"]
  note t2b = t2[THEN conjunct2, THEN conjunct2, THEN conjunct2, THEN conjunct2,
      THEN conjunct2, rule_format,
      where j = "2::nat" and ?b0.0 = "''(9223372036854775808/100)''"
        and ?b1.0 = "''9223372036854775808''"]
  have prem: "dec ''100'' < 2 ^ 63 \<and> dec ''2'' < 2 ^ 63 \<and> dec ''1'' < 2 ^ 63 \<and>
        (2::nat) = (if Contains (overflow_build_lines ! (0 + 2)) ''bitmap'' then 0 + 3 else 0 + 2) \<and>
        (Contains (overflow_build_lines ! 2) ''recovery'' \<or>
         Contains (overflow_build_lines ! 2) ''resync'') \<and>
        FindStringSubmatch buildlineRE (overflow_build_lines ! 2) =
          [''(9223372036854775808/100)'', ''9223372036854775808''] \<and>
        2 ^ 63 \<le> dec ''9223372036854775808''"
    using d1 d2 d3 d4 g5 g6 g7 by (intro conjI) simp_all
  from t2b[OF prem]
  have b2: "parseMdstat_loop overflow_build_lines 0 [] =
         Some ([], Some (Errorf ''error parsing %s: %s''
           [S statusfile, E (Errorf ''%s in buildline: %s''
              [E (NumError ''ParseInt'' ''9223372036854775808'' ErrRange),
               S (overflow_build_lines ! 2)])]))"
    by blast
  show ?thesis
    by (insert h1 h2 h3 h4 d1 p1 p2 b1 g1 g2 g3 g4 g6 g7 b2, (intro conjI; assumption))
qed

end
